theory Spec2Isabelle
  imports Complex_Main "HOL-Library.Sublist"
begin

section \<open>Python values and library calls used by \<^verbatim>\<open>pyaqs.py\<close>\<close>

text \<open>
  The client \<^verbatim>\<open>AQSFetcher\<close> of \<^verbatim>\<open>src/pyaqs.py\<close> builds a URL by string
  concatenation, sends one GET, and turns the JSON answer into a pandas dataframe. Three
  library calls sit between the lines of each method: \<^verbatim>\<open>requests.get\<close>,
  \<^verbatim>\<open>json.loads\<close> and \<^verbatim>\<open>pd.DataFrame.from_records\<close>. They are not code of
  the repository, so every method of the model takes them as a parameter (the record
  \<open>library\<close> below); a theorem that holds for every \<open>library\<close> holds for the real
  one, and a scenario fixes a mocked one.
\<close>

subsection \<open>Exceptions\<close>

text \<open>
  An exception is represented by the class that an \<^verbatim>\<open>except\<close> clause sees.
  \<open>ValueError\<close> stands for the class and its subclasses (\<^verbatim>\<open>json.JSONDecodeError\<close>,
  \<^verbatim>\<open>UnicodeDecodeError\<close>); \<open>OtherException\<close> stands for every class that is
  neither an \<^verbatim>\<open>AssertionError\<close> nor a \<^verbatim>\<open>ValueError\<close> nor one of the lookup
  and type errors named here (a connection error of the transport, for example).
\<close>

datatype pyexc =
    AssertionError
  | ValueError
  | KeyError
  | IndexError
  | TypeError
  | OtherException

text \<open>Sequencing of statements that may raise: the first exception ends the block.\<close>

definition bind_exc :: "pyexc + 'a \<Rightarrow> ('a \<Rightarrow> pyexc + 'b) \<Rightarrow> pyexc + 'b" where
  "bind_exc m f = (case m of Inl e \<Rightarrow> Inl e | Inr x \<Rightarrow> f x)"

subsection \<open>Decoded JSON\<close>

text \<open>
  What \<^verbatim>\<open>json.loads\<close> returns: \<^verbatim>\<open>None\<close>, a bool, an int, a float (a finite one,
  by its exact rational value), a str, a list, or a dict. A dict is given by its items in
  insertion order; keys of a decoded JSON object are strings and occur once.
\<close>

datatype json =
    JNull
  | JBool bool
  | JInt int
  | JFloat rat
  | JStr string
  | JArr "json list"
  | JObj "(string \<times> json) list"

text \<open>\<^verbatim>\<open>v[key]\<close> for a string key: a dict looks the key up, every other value raises
  \<^verbatim>\<open>TypeError\<close> (a list or a str wants an integer index, the rest is not subscriptable).\<close>

definition getitem :: "json \<Rightarrow> string \<Rightarrow> pyexc + json" where
  "getitem v k =
     (case v of
        JObj items \<Rightarrow> (case map_of items k of None \<Rightarrow> Inl KeyError | Some x \<Rightarrow> Inr x)
      | _ \<Rightarrow> Inl TypeError)"

text \<open>\<^verbatim>\<open>v[0]\<close>: the first element of a list, the first character of a str (as a str of
  length one), \<^verbatim>\<open>IndexError\<close> when either is empty, \<^verbatim>\<open>KeyError\<close> on a dict (its keys
  are strings), \<^verbatim>\<open>TypeError\<close> on the rest.\<close>

definition getitem0 :: "json \<Rightarrow> pyexc + json" where
  "getitem0 v =
     (case v of
        JArr [] \<Rightarrow> Inl IndexError
      | JArr (x # _) \<Rightarrow> Inr x
      | JStr [] \<Rightarrow> Inl IndexError
      | JStr (c # _) \<Rightarrow> Inr (JStr [c])
      | JObj _ \<Rightarrow> Inl KeyError
      | _ \<Rightarrow> Inl TypeError)"

text \<open>\<^verbatim>\<open>v == 0\<close>: true for the int 0, the float 0.0 and \<^verbatim>\<open>False\<close>, false for
  every other value.\<close>

definition eq_zero :: "json \<Rightarrow> bool" where
  "eq_zero v =
     (case v of
        JInt n \<Rightarrow> n = 0
      | JFloat q \<Rightarrow> q = 0
      | JBool b \<Rightarrow> \<not> b
      | _ \<Rightarrow> False)"

subsection \<open>Arguments and their string forms\<close>

text \<open>
  The docstrings ask for ``integers or wrapped string integers'': an argument is an int
  or a str. \<open>str\<close> is Python's \<^verbatim>\<open>str(p)\<close>, which is also what an f-string
  \<^verbatim>\<open>f'{p}'\<close> inserts: a str as it is, an int in decimal with a leading minus sign
  when negative.
\<close>

datatype pyval = PInt int | PStr string

definition digit :: "nat \<Rightarrow> char" where
  "digit d = ''0123456789'' ! d"

fun str_nat :: "nat \<Rightarrow> string" where
  "str_nat n = (if n < 10 then [digit n] else str_nat (n div 10) @ [digit (n mod 10)])"

declare str_nat.simps [simp del]

definition str_int :: "int \<Rightarrow> string" where
  "str_int i = (if i < 0 then CHR ''-'' # str_nat (nat (- i)) else str_nat (nat i))"

fun str :: "pyval \<Rightarrow> string" where
  "str (PStr s) = s"
| "str (PInt i) = str_int i"

text \<open>
  The \<^verbatim>\<open>params\<close> argument is what the \<^verbatim>\<open>for\<close> loop iterates: a list of codes, or a
  single bare value passed in place of a list. Iterating a str yields its characters, each
  a str of length one; iterating an int raises \<^verbatim>\<open>TypeError\<close>.
\<close>

datatype pyparams = PList "pyval list" | PBare pyval

fun iterate :: "pyparams \<Rightarrow> pyexc + pyval list" where
  "iterate (PList ps) = Inr ps"
| "iterate (PBare (PStr s)) = Inr (map (\<lambda>c. PStr [c]) s)"
| "iterate (PBare (PInt i)) = Inl TypeError"

subsection \<open>Dataframes\<close>

text \<open>
  A dataframe is its column labels and its rows, each row holding one cell per column;
  a cell is a decoded value, or nothing where the record had no such key (pandas' NaN).
\<close>

record dataframe =
  columns :: "string list"
  records :: "json option list list"

text \<open>\<^verbatim>\<open>df.rename(columns=mapper, inplace=True)\<close>: every column label that is a key of
  the mapper is replaced by the mapper's value for it, all at once; the other labels and
  the cells stay.\<close>

definition rename :: "(string \<times> string) list \<Rightarrow> dataframe \<Rightarrow> dataframe" where
  "rename mapper df =
     df\<lparr>columns := map (\<lambda>c. case map_of mapper c of None \<Rightarrow> c | Some c' \<Rightarrow> c') (columns df)\<rparr>"

subsection \<open>The library\<close>

record response =
  status_code :: int
  content :: string

record library =
  requests_get :: "string \<Rightarrow> pyexc + response"
  json_loads :: "string \<Rightarrow> pyexc + json"
  from_records :: "json \<Rightarrow> pyexc + dataframe"

text \<open>
  What pandas documents for \<^verbatim>\<open>DataFrame.from_records\<close> on a list of dicts, the shape
  the service's \<^verbatim>\<open>Data\<close> array has: the columns are the keys in order of first
  appearance, and each dict gives one row. It is used by the scenarios only; other shapes
  of data are left to the \<open>library\<close> parameter.
\<close>

fun as_dicts :: "json list \<Rightarrow> (string \<times> json) list list option" where
  "as_dicts [] = Some []"
| "as_dicts (JObj items # vs) = map_option ((#) items) (as_dicts vs)"
| "as_dicts (_ # vs) = None"

definition frame_of_dicts :: "(string \<times> json) list list \<Rightarrow> dataframe" where
  "frame_of_dicts ds =
     (let cols = rev (remdups (rev (concat (map (map fst) ds))))
      in \<lparr>columns = cols, records = map (\<lambda>d. map (map_of d) cols) ds\<rparr>)"

definition pandas_from_records :: "json \<Rightarrow> pyexc + dataframe" where
  "pandas_from_records v =
     (case v of
        JArr vs \<Rightarrow> (case as_dicts vs of Some ds \<Rightarrow> Inr (frame_of_dicts ds)
                    | None \<Rightarrow> Inl OtherException)
      | _ \<Rightarrow> Inl OtherException)"

section \<open>The client\<close>

text \<open>The class \<^verbatim>\<open>AQSFetcher\<close>: its four attributes, set by the constructor
  (lines 43--50). The base URL is optional and defaults to the production service.\<close>

record AQSFetcher =
  email :: string
  key :: string
  api_url :: string
  stub :: string

definition init :: "string \<Rightarrow> string \<Rightarrow> string option \<Rightarrow> AQSFetcher" where
  "init email' key' api_url' =
     \<lparr>email = email',
      key = key',
      api_url = (case api_url' of None \<Rightarrow> ''https://aqs.epa.gov/data/api'' | Some u \<Rightarrow> u),
      stub = ''?email='' @ email' @ ''&key='' @ key'\<rparr>"

text \<open>
  What a call leaves behind: the client object after the call, the URLs handed to
  \<^verbatim>\<open>requests.get\<close>, the lines printed, and how the call ended: an exception that
  left the method (\<open>Inl\<close>), or a return value, which is a dataframe or \<^verbatim>\<open>None\<close>.
\<close>

record call =
  self_after :: AQSFetcher
  requested :: "string list"
  stdout :: "string list"
  outcome :: "pyexc + dataframe option"

text \<open>An exception raised before the request is sent (the loop over \<^verbatim>\<open>params\<close>).\<close>

definition raised_before :: "AQSFetcher \<Rightarrow> pyexc \<Rightarrow> call" where
  "raised_before self e = \<lparr>self_after = self, requested = [], stdout = [], outcome = Inl e\<rparr>"

text \<open>\<^verbatim>\<open>response = requests.get(url)\<close> followed by the rest of the method. The call
  stands outside every \<^verbatim>\<open>try\<close>, so an exception of the transport leaves the method.\<close>

definition get_then ::
  "library \<Rightarrow> AQSFetcher \<Rightarrow> string \<Rightarrow> (response \<Rightarrow> string list \<times> (pyexc + dataframe option)) \<Rightarrow> call"
where
  "get_then lib self url rest =
     (case requests_get lib url of
        Inl e \<Rightarrow> \<lparr>self_after = self, requested = [url], stdout = [], outcome = Inl e\<rparr>
      | Inr response \<Rightarrow>
          \<lparr>self_after = self, requested = [url],
           stdout = fst (rest response), outcome = snd (rest response)\<rparr>)"

text \<open>\<^verbatim>\<open>assert response.status_code == requests.codes.ok\<close>; the constant is 200, so
  every other status, the other 2xx codes included, fails the assertion. Assertions are
  taken as enabled (the interpreter does not run with \<^verbatim>\<open>-O\<close>).\<close>

definition assert_ok :: "response \<Rightarrow> pyexc + unit" where
  "assert_ok response = (if status_code response = 200 then Inr () else Inl AssertionError)"

text \<open>
  The two shapes of \<^verbatim>\<open>try\<close> statement in the file. The block either returns a
  dataframe or raises; \<^verbatim>\<open>except AssertionError\<close> prints \<^verbatim>\<open>Bad URL!\<close>,
  \<^verbatim>\<open>except ValueError\<close> prints \<^verbatim>\<open>No matching data could be found!\<close>, and after
  either the method falls off its end and returns \<^verbatim>\<open>None\<close>. Any other exception
  leaves the method.
\<close>

definition except_AssertionError ::
  "pyexc + dataframe \<Rightarrow> string list \<times> (pyexc + dataframe option)" where
  "except_AssertionError block =
     (case block of
        Inr df \<Rightarrow> ([], Inr (Some df))
      | Inl e \<Rightarrow>
          if e = AssertionError then ([''Bad URL!''], Inr None)
          else ([], Inl e))"

definition except_AssertionError_ValueError ::
  "pyexc + dataframe \<Rightarrow> string list \<times> (pyexc + dataframe option)" where
  "except_AssertionError_ValueError block =
     (case block of
        Inr df \<Rightarrow> ([], Inr (Some df))
      | Inl e \<Rightarrow>
          if e = AssertionError then ([''Bad URL!''], Inr None)
          else if e = ValueError then ([''No matching data could be found!''], Inr None)
          else ([], Inl e))"

text \<open>
  The loop that five methods repeat verbatim (lines 201--205, 239--243, 280--284,
  321--325, 362--366): start from \<^verbatim>\<open>'&param='\<close>, append \<^verbatim>\<open>str(p)\<close> and a comma
  for each element, then drop the last character with \<^verbatim>\<open>search_params[:-1]\<close>.
\<close>

fun for_p_in :: "pyval list \<Rightarrow> string \<Rightarrow> string" where
  "for_p_in [] search_params = search_params"
| "for_p_in (p # ps) search_params = for_p_in ps ((search_params @ str p) @ '','')"

definition param_fragment :: "pyparams \<Rightarrow> pyexc + string" where
  "param_fragment params =
     bind_exc (iterate params) (\<lambda>ps. Inr (butlast (for_p_in ps ''&param='')))"

section \<open>The public methods\<close>

text \<open>
  Each definition follows its method line by line: the URL is the concatenation the
  source writes, \<open>get_then\<close> is the GET, and the argument of the \<^verbatim>\<open>except\<close>
  handler is the \<^verbatim>\<open>try\<close> block, one \<open>bind_exc\<close> per statement that can raise.
\<close>

text \<open>Lines 52--65.\<close>

definition get_cbsas :: "library \<Rightarrow> AQSFetcher \<Rightarrow> call" where
  "get_cbsas lib self =
     (let url = api_url self @ ''/list/cbsas'' @ stub self in
      get_then lib self url (\<lambda>response.
        except_AssertionError (
            bind_exc (assert_ok response) (\<lambda>_.
            bind_exc (json_loads lib (content response)) (\<lambda>jsn.
            bind_exc (getitem jsn ''Data'') (\<lambda>json_data.
            bind_exc (from_records lib json_data) (\<lambda>df.
            Inr (rename [(''value_represented'', ''cbsa_name'')] df))))))))"

text \<open>Lines 67--84.\<close>

definition get_state_codes :: "library \<Rightarrow> AQSFetcher \<Rightarrow> call" where
  "get_state_codes lib self =
     (let url = api_url self @ ''/list/states'' @ stub self in
      get_then lib self url (\<lambda>response.
        except_AssertionError (
            bind_exc (assert_ok response) (\<lambda>_.
            bind_exc (json_loads lib (content response)) (\<lambda>jsn.
            bind_exc (getitem jsn ''Data'') (\<lambda>json_data.
            bind_exc (from_records lib json_data) (\<lambda>df.
            Inr (rename [(''value_represented'', ''state_name'')] df))))))))"

text \<open>Lines 86--113.\<close>

definition get_counties_by_state :: "library \<Rightarrow> AQSFetcher \<Rightarrow> pyval \<Rightarrow> call" where
  "get_counties_by_state lib self state =
     (let url = (api_url self @ ''/list/countiesByState'' @ stub self) @ ''&state='' @ str state in
      get_then lib self url (\<lambda>response.
        except_AssertionError_ValueError (
            bind_exc (assert_ok response) (\<lambda>_.
            bind_exc (json_loads lib (content response)) (\<lambda>jsn.
            bind_exc (getitem jsn ''Header'') (\<lambda>json_header.
            bind_exc (getitem jsn ''Data'') (\<lambda>json_data.
            bind_exc (getitem0 json_header) (\<lambda>header0.
            bind_exc (getitem header0 ''rows'') (\<lambda>rows.
            bind_exc (if eq_zero rows then Inl ValueError else Inr ()) (\<lambda>_.
            bind_exc (from_records lib json_data) (\<lambda>df.
            Inr (rename [(''value_represented'', ''county_name'')] df))))))))))))"

text \<open>Lines 115--140.\<close>

definition get_sites_by_county :: "library \<Rightarrow> AQSFetcher \<Rightarrow> pyval \<Rightarrow> pyval \<Rightarrow> call" where
  "get_sites_by_county lib self state county =
     (let url = (api_url self @ ''/list/sitesByCounty'' @ stub self)
                 @ ''&state='' @ str state @ ''&county='' @ str county in
      get_then lib self url (\<lambda>response.
        except_AssertionError_ValueError (
            bind_exc (assert_ok response) (\<lambda>_.
            bind_exc (json_loads lib (content response)) (\<lambda>jsn.
            bind_exc (getitem jsn ''Header'') (\<lambda>json_header.
            bind_exc (getitem jsn ''Data'') (\<lambda>json_data.
            bind_exc (getitem0 json_header) (\<lambda>header0.
            bind_exc (getitem header0 ''rows'') (\<lambda>rows.
            bind_exc (if eq_zero rows then Inl ValueError else Inr ()) (\<lambda>_.
            bind_exc (from_records lib json_data) (\<lambda>df.
            Inr (rename [(''value_represented'', ''site_name'')] df))))))))))))"

text \<open>
  Lines 142--160. Here the \<^verbatim>\<open>try\<close> statement holds the assertion alone: after
  \<^verbatim>\<open>Bad URL!\<close> is printed the method goes on to decode the body, outside any
  handler, and returns the dataframe.
\<close>

definition get_parameter_classes :: "library \<Rightarrow> AQSFetcher \<Rightarrow> call" where
  "get_parameter_classes lib self =
     (let url = api_url self @ ''/list/classes'' @ stub self in
      get_then lib self url (\<lambda>response.
        let printed = (case assert_ok response of
                         Inl e \<Rightarrow> [''Bad URL!'']
                       | Inr _ \<Rightarrow> [])
        in (printed,
            map_sum id Some (
              bind_exc (json_loads lib (content response)) (\<lambda>jsn.
              bind_exc (getitem jsn ''Data'') (\<lambda>json_data.
              bind_exc (from_records lib json_data) (\<lambda>df.
              Inr (rename [(''code'', ''class_name''),
                           (''value_represented'', ''class_description'')] df))))))))"

text \<open>Lines 162--191.\<close>

definition get_parameter_list_by_class :: "library \<Rightarrow> AQSFetcher \<Rightarrow> pyval \<Rightarrow> call" where
  "get_parameter_list_by_class lib self class' =
     (let url = (api_url self @ ''/list/parametersByClass'' @ stub self) @ ''&pc='' @ str class' in
      get_then lib self url (\<lambda>response.
        except_AssertionError_ValueError (
            bind_exc (assert_ok response) (\<lambda>_.
            bind_exc (json_loads lib (content response)) (\<lambda>jsn.
            bind_exc (getitem jsn ''Header'') (\<lambda>json_header.
            bind_exc (getitem jsn ''Data'') (\<lambda>json_data.
            bind_exc (getitem0 json_header) (\<lambda>header0.
            bind_exc (getitem header0 ''rows'') (\<lambda>rows.
            bind_exc (if eq_zero rows then Inl ValueError else Inr ()) (\<lambda>_.
            bind_exc (from_records lib json_data) (\<lambda>df.
            Inr (rename [(''value_represented'', ''parameter_description'')] df))))))))))))"

text \<open>Lines 193--226.\<close>

definition annual_data_by_cbsa :: "library \<Rightarrow> AQSFetcher \<Rightarrow> pyval \<Rightarrow> pyparams \<Rightarrow> pyval \<Rightarrow> pyval \<Rightarrow> call" where
  "annual_data_by_cbsa lib self cbsa_code params bdate edate =
     (case param_fragment params of
        Inl e \<Rightarrow> raised_before self e
      | Inr search_params \<Rightarrow>
         (let search_params = search_params @ ''&bdate='' @ str bdate @ ''&edate='' @ str edate @ ''&cbsa='' @ str cbsa_code;
              url = api_url self @ ''/annualData/byCBSA'' @ stub self @ search_params in
          get_then lib self url (\<lambda>response.
            except_AssertionError_ValueError (
            bind_exc (assert_ok response) (\<lambda>_.
            bind_exc (json_loads lib (content response)) (\<lambda>jsn.
            bind_exc (getitem jsn ''Header'') (\<lambda>json_header.
            bind_exc (getitem jsn ''Data'') (\<lambda>json_data.
            bind_exc (getitem0 json_header) (\<lambda>header0.
            bind_exc (getitem header0 ''rows'') (\<lambda>rows.
            bind_exc (if eq_zero rows then Inl ValueError else Inr ()) (\<lambda>_.
            bind_exc (from_records lib json_data) (\<lambda>df.
            Inr df))))))))))))"

text \<open>Lines 228--268.\<close>

definition annual_data_by_site :: "library \<Rightarrow> AQSFetcher \<Rightarrow> pyval \<Rightarrow> pyval \<Rightarrow> pyval \<Rightarrow> pyparams \<Rightarrow> pyval \<Rightarrow> pyval \<Rightarrow> call" where
  "annual_data_by_site lib self state county site params bdate edate =
     (case param_fragment params of
        Inl e \<Rightarrow> raised_before self e
      | Inr search_params \<Rightarrow>
         (let search_params = search_params @ (''&state='' @ str state @ ''&county='' @ str county @
                 ''&bdate='' @ str bdate @ ''&edate='' @ str edate @ ''&site='' @ str site);
              url = api_url self @ ''/annualData/bySite'' @ stub self @ search_params in
          get_then lib self url (\<lambda>response.
            except_AssertionError_ValueError (
            bind_exc (assert_ok response) (\<lambda>_.
            bind_exc (json_loads lib (content response)) (\<lambda>jsn.
            bind_exc (getitem jsn ''Header'') (\<lambda>json_header.
            bind_exc (getitem jsn ''Data'') (\<lambda>json_data.
            bind_exc (getitem0 json_header) (\<lambda>header0.
            bind_exc (getitem header0 ''rows'') (\<lambda>rows.
            bind_exc (if eq_zero rows then Inl ValueError else Inr ()) (\<lambda>_.
            bind_exc (from_records lib json_data) (\<lambda>df.
            Inr df))))))))))))"

text \<open>Lines 270--310.\<close>

definition annual_data_by_county :: "library \<Rightarrow> AQSFetcher \<Rightarrow> pyval \<Rightarrow> pyval \<Rightarrow> pyparams \<Rightarrow> pyval \<Rightarrow> pyval \<Rightarrow> call" where
  "annual_data_by_county lib self state county params bdate edate =
     (case param_fragment params of
        Inl e \<Rightarrow> raised_before self e
      | Inr search_params \<Rightarrow>
         (let search_params = search_params @ (''&state='' @ str state @ ''&county='' @ str county @
                 ''&bdate='' @ str bdate @ ''&edate='' @ str edate);
              url = (api_url self @ ''/annualData/byCounty'' @ stub self) @ search_params in
          get_then lib self url (\<lambda>response.
            except_AssertionError_ValueError (
            bind_exc (assert_ok response) (\<lambda>_.
            bind_exc (json_loads lib (content response)) (\<lambda>jsn.
            bind_exc (getitem jsn ''Header'') (\<lambda>json_header.
            bind_exc (getitem jsn ''Data'') (\<lambda>json_data.
            bind_exc (getitem0 json_header) (\<lambda>header0.
            bind_exc (getitem header0 ''rows'') (\<lambda>rows.
            bind_exc (if eq_zero rows then Inl ValueError else Inr ()) (\<lambda>_.
            bind_exc (from_records lib json_data) (\<lambda>df.
            Inr df))))))))))))"

text \<open>Lines 312--350.\<close>

definition annual_data_by_state :: "library \<Rightarrow> AQSFetcher \<Rightarrow> pyval \<Rightarrow> pyparams \<Rightarrow> pyval \<Rightarrow> pyval \<Rightarrow> call" where
  "annual_data_by_state lib self state params bdate edate =
     (case param_fragment params of
        Inl e \<Rightarrow> raised_before self e
      | Inr search_params \<Rightarrow>
         (let search_params = search_params @ (''&state='' @ str state @ ''&bdate='' @ str bdate @ ''&edate='' @ str edate);
              url = (api_url self @ ''/annualData/byState'' @ stub self) @ search_params in
          get_then lib self url (\<lambda>response.
            except_AssertionError_ValueError (
            bind_exc (assert_ok response) (\<lambda>_.
            bind_exc (json_loads lib (content response)) (\<lambda>jsn.
            bind_exc (getitem jsn ''Header'') (\<lambda>json_header.
            bind_exc (getitem jsn ''Data'') (\<lambda>json_data.
            bind_exc (getitem0 json_header) (\<lambda>header0.
            bind_exc (getitem header0 ''rows'') (\<lambda>rows.
            bind_exc (if eq_zero rows then Inl ValueError else Inr ()) (\<lambda>_.
            bind_exc (from_records lib json_data) (\<lambda>df.
            Inr df))))))))))))"

text \<open>Lines 352--394.\<close>

definition get_monitors_at_site :: "library \<Rightarrow> AQSFetcher \<Rightarrow> pyval \<Rightarrow> pyval \<Rightarrow> pyval \<Rightarrow> pyparams \<Rightarrow> pyval \<Rightarrow> pyval \<Rightarrow> call" where
  "get_monitors_at_site lib self state county site params bdate edate =
     (case param_fragment params of
        Inl e \<Rightarrow> raised_before self e
      | Inr search_params \<Rightarrow>
         (let search_params = search_params @ (''&state='' @ str state @ ''&county='' @ str county @
                 ''&bdate='' @ str bdate @ ''&edate='' @ str edate @ ''&site='' @ str site);
              url = api_url self @ ''/monitors/bySite'' @ stub self @ search_params in
          get_then lib self url (\<lambda>response.
            except_AssertionError_ValueError (
            bind_exc (assert_ok response) (\<lambda>_.
            bind_exc (json_loads lib (content response)) (\<lambda>jsn.
            bind_exc (getitem jsn ''Header'') (\<lambda>json_header.
            bind_exc (getitem jsn ''Data'') (\<lambda>json_data.
            bind_exc (getitem0 json_header) (\<lambda>header0.
            bind_exc (getitem header0 ''rows'') (\<lambda>rows.
            bind_exc (if eq_zero rows then Inl ValueError else Inr ()) (\<lambda>_.
            bind_exc (from_records lib json_data) (\<lambda>df.
            Inr df))))))))))))"

section \<open>Operations, outcomes and the vocabulary of the specification\<close>

text \<open>The eleven public methods with their arguments, so that a statement can range
  over every operation; \<open>invoke\<close> is the method call.\<close>

datatype operation =
    Get_cbsas
  | Get_state_codes
  | Get_counties_by_state pyval
  | Get_sites_by_county pyval pyval
  | Get_parameter_classes
  | Get_parameter_list_by_class pyval
  | Annual_data_by_cbsa pyval pyparams pyval pyval
  | Annual_data_by_site pyval pyval pyval pyparams pyval pyval
  | Annual_data_by_county pyval pyval pyparams pyval pyval
  | Annual_data_by_state pyval pyparams pyval pyval
  | Get_monitors_at_site pyval pyval pyval pyparams pyval pyval

fun invoke :: "library \<Rightarrow> AQSFetcher \<Rightarrow> operation \<Rightarrow> call" where
  "invoke lib self Get_cbsas = get_cbsas lib self"
| "invoke lib self Get_state_codes = get_state_codes lib self"
| "invoke lib self (Get_counties_by_state state) = get_counties_by_state lib self state"
| "invoke lib self (Get_sites_by_county state county) = get_sites_by_county lib self state county"
| "invoke lib self Get_parameter_classes = get_parameter_classes lib self"
| "invoke lib self (Get_parameter_list_by_class c) = get_parameter_list_by_class lib self c"
| "invoke lib self (Annual_data_by_cbsa cbsa_code params bdate edate) =
     annual_data_by_cbsa lib self cbsa_code params bdate edate"
| "invoke lib self (Annual_data_by_site state county site params bdate edate) =
     annual_data_by_site lib self state county site params bdate edate"
| "invoke lib self (Annual_data_by_county state county params bdate edate) =
     annual_data_by_county lib self state county params bdate edate"
| "invoke lib self (Annual_data_by_state state params bdate edate) =
     annual_data_by_state lib self state params bdate edate"
| "invoke lib self (Get_monitors_at_site state county site params bdate edate) =
     get_monitors_at_site lib self state county site params bdate edate"

text \<open>The endpoints whose methods read \<^verbatim>\<open>json_header[0]['rows']\<close>.\<close>

fun row_count_bearing :: "operation \<Rightarrow> bool" where
  "row_count_bearing Get_cbsas = False"
| "row_count_bearing Get_state_codes = False"
| "row_count_bearing Get_parameter_classes = False"
| "row_count_bearing _ = True"

text \<open>The reference-list operations: the six methods on the \<^verbatim>\<open>/list/\<close> endpoints,
  the ones that rename columns.\<close>

fun reference_list :: "operation \<Rightarrow> bool" where
  "reference_list Get_cbsas = True"
| "reference_list Get_state_codes = True"
| "reference_list (Get_counties_by_state _) = True"
| "reference_list (Get_sites_by_county _ _) = True"
| "reference_list Get_parameter_classes = True"
| "reference_list (Get_parameter_list_by_class _) = True"
| "reference_list _ = False"

text \<open>The endpoint paths as section 6 of the specification lists them.\<close>

fun endpoint_path :: "operation \<Rightarrow> string" where
  "endpoint_path Get_cbsas = ''/list/cbsas''"
| "endpoint_path Get_state_codes = ''/list/states''"
| "endpoint_path (Get_counties_by_state _) = ''/list/countiesByState''"
| "endpoint_path (Get_sites_by_county _ _) = ''/list/sitesByCounty''"
| "endpoint_path Get_parameter_classes = ''/list/classes''"
| "endpoint_path (Get_parameter_list_by_class _) = ''/list/parametersByClass''"
| "endpoint_path (Annual_data_by_cbsa _ _ _ _) = ''/annualData/byCBSA''"
| "endpoint_path (Annual_data_by_site _ _ _ _ _ _) = ''/annualData/bySite''"
| "endpoint_path (Annual_data_by_county _ _ _ _ _) = ''/annualData/byCounty''"
| "endpoint_path (Annual_data_by_state _ _ _ _) = ''/annualData/byState''"
| "endpoint_path (Get_monitors_at_site _ _ _ _ _ _) = ''/monitors/bySite''"

text \<open>
  The specification's outcomes, read off a call. A table is a returned dataframe. The
  source has no failure value: a TransportError failure is the line \<^verbatim>\<open>Bad URL!\<close> on
  standard output followed by the return of \<^verbatim>\<open>None\<close>, a NoMatchingData failure the
  line \<^verbatim>\<open>No matching data could be found!\<close> followed by the return of \<^verbatim>\<open>None\<close>.
\<close>

definition returns_table :: "call \<Rightarrow> bool" where
  "returns_table c = (case outcome c of Inr (Some df) \<Rightarrow> True | _ \<Rightarrow> False)"

definition yields_TransportError :: "call \<Rightarrow> bool" where
  "yields_TransportError c = (stdout c = [''Bad URL!''] \<and> outcome c = Inr None)"

definition yields_NoMatchingData :: "call \<Rightarrow> bool" where
  "yields_NoMatchingData c =
     (stdout c = [''No matching data could be found!''] \<and> outcome c = Inr None)"

text \<open>The payload's declared row count, \<^verbatim>\<open>jsn['Header'][0]['rows']\<close>.\<close>

definition declared_rows :: "json \<Rightarrow> pyexc + json" where
  "declared_rows jsn =
     bind_exc (getitem jsn ''Header'') (\<lambda>json_header.
     bind_exc (getitem0 json_header) (\<lambda>header0.
     getitem header0 ''rows''))"

text \<open>The specification's comma join of a list of strings (Python's \<^verbatim>\<open>','.join\<close>):
  the strings in their order, one comma between neighbours.\<close>

fun comma_join :: "string list \<Rightarrow> string" where
  "comma_join [] = []"
| "comma_join [s] = s"
| "comma_join (s # t # ss) = s @ '','' @ comma_join (t # ss)"

text \<open>
  A dangling separator, for the specification's ``query string with a dangling
  separator'': one of the characters \<^verbatim>\<open>& = ,\<close> with nothing to separate after it,
  because the string ends there or because the next character is a separator too.
\<close>

definition separator :: "char \<Rightarrow> bool" where
  "separator c = (c = CHR ''&'' \<or> c = CHR ''='' \<or> c = CHR '','')"

fun dangling_separator :: "string \<Rightarrow> bool" where
  "dangling_separator [] = False"
| "dangling_separator [c] = separator c"
| "dangling_separator (c # d # cs) =
     ((separator c \<and> separator d) \<or> dangling_separator (d # cs))"

text \<open>A mocked library: the transport answers every URL with the same response, the
  decoder returns the given payload, and dataframes are built as pandas documents.\<close>

definition mock :: "response \<Rightarrow> json \<Rightarrow> library" where
  "mock response payload =
     \<lparr>requests_get = (\<lambda>url. Inr response),
      json_loads = (\<lambda>body. Inr payload),
      from_records = pandas_from_records\<rparr>"

text \<open>Values for the scenarios: a client built with the default base URL, an answer
  with status 200, and the payload of an empty result
  (\<^verbatim>\<open>{"Header": [{"rows": 0}], "Data": []}\<close>).\<close>

definition example_client :: AQSFetcher where
  "example_client = init ''user@example.com'' ''secret'' None"

definition ok_response :: response where
  "ok_response = \<lparr>status_code = 200, content = ''(body)''\<rparr>"

definition zero_rows_payload :: json where
  "zero_rows_payload =
     JObj [(''Header'', JArr [JObj [(''rows'', JInt 0)]]), (''Data'', JArr [])]"

text \<open>The same header without a \<^verbatim>\<open>Data\<close> entry
  (\<^verbatim>\<open>{"Header": [{"rows": 0}]}\<close>).\<close>

definition header_only_payload :: json where
  "header_only_payload = JObj [(''Header'', JArr [JObj [(''rows'', JInt 0)]])]"

definition classes_payload :: json where
  "classes_payload =
     JObj [(''Data'', JArr [JObj [(''code'', JStr ''AQI''),
                                  (''value_represented'', JStr ''AQI Pollutants'')]])]"

definition states_payload :: json where
  "states_payload =
     JObj [(''Data'', JArr [JObj [(''code'', JStr ''01''),
                                  (''value_represented'', JStr ''Alabama'')]])]"

definition not_found_response :: response where
  "not_found_response = \<lparr>status_code = 404, content = ''(body)''\<rparr>"

section \<open>Auxiliary facts\<close>

lemma for_p_in_concat: "for_p_in ps acc = acc @ concat (map (\<lambda>p. str p @ '','') ps)"
  by (induction ps arbitrary: acc) simp_all

lemma butlast_commas: "ss \<noteq> [] \<Longrightarrow> butlast (concat (map (\<lambda>s. s @ '','') ss)) = comma_join ss"
  by (induction ss rule: comma_join.induct) (simp_all add: butlast_append)

lemma loop_nonempty:
  "ps \<noteq> [] \<Longrightarrow> butlast (for_p_in ps acc) = acc @ comma_join (map str ps)"
proof -
  assume ne: "ps \<noteq> []"
  have c: "concat (map (\<lambda>p. str p @ '','') ps) = concat (map (\<lambda>s. s @ '','') (map str ps))"
    by (simp add: comp_def)
  have "concat (map (\<lambda>s. s @ '','') (map str ps)) \<noteq> []"
    using ne by (cases ps) simp_all
  then show ?thesis
    using ne by (simp add: for_p_in_concat butlast_append c butlast_commas del: map_map)
qed

lemma requested_get_then: "requested (get_then lib self url rest) = [url]"
  by (simp add: get_then_def split: sum.splits)

lemma self_after_get_then: "self_after (get_then lib self url rest) = self"
  by (simp add: get_then_def split: sum.splits)

lemma get_then_answered:
  "requests_get lib url = Inr response \<Longrightarrow>
   stdout (get_then lib self url rest) = fst (rest response) \<and>
   outcome (get_then lib self url rest) = snd (rest response)"
  by (simp add: get_then_def)

lemmas method_defs =
  get_cbsas_def get_state_codes_def get_counties_by_state_def get_sites_by_county_def
  get_parameter_classes_def get_parameter_list_by_class_def annual_data_by_cbsa_def
  annual_data_by_site_def annual_data_by_county_def annual_data_by_state_def
  get_monitors_at_site_def

lemma self_after_invoke: "self_after (invoke lib self op) = self"
  by (cases op)
     (simp_all add: method_defs Let_def self_after_get_then raised_before_def split: sum.splits)

lemma bad_status_block:
  "status_code response \<noteq> 200 \<Longrightarrow> bind_exc (assert_ok response) f = Inl AssertionError"
  by (simp add: assert_ok_def bind_exc_def)

lemma sibling_bad_status:
  assumes "op \<noteq> Get_parameter_classes"
    and "requested (invoke lib self op) = [u]"
    and "requests_get lib u = Inr response"
    and "status_code response \<noteq> 200"
  shows "yields_TransportError (invoke lib self op)"
  using assms
  by (cases op)
     (auto simp add: method_defs Let_def requested_get_then raised_before_def
        get_then_answered bad_status_block yields_TransportError_def
        except_AssertionError_def except_AssertionError_ValueError_def split: sum.splits)

lemma get_then_returned:
  assumes "outcome (get_then lib self url rest) = Inr x"
  shows "\<exists>response. requests_get lib url = Inr response \<and> snd (rest response) = Inr x \<and>
           stdout (get_then lib self url rest) = fst (rest response)"
  using assms by (cases "requests_get lib url") (simp_all add: get_then_def)

lemma except_A_Some:
  "snd (except_AssertionError block) = Inr (Some df) \<Longrightarrow>
   block = Inr df \<and> fst (except_AssertionError block) = []"
  by (cases block) (simp_all add: except_AssertionError_def split: if_splits)

lemma except_AV_Some:
  "snd (except_AssertionError_ValueError block) = Inr (Some df) \<Longrightarrow>
   block = Inr df \<and> fst (except_AssertionError_ValueError block) = []"
  by (cases block) (simp_all add: except_AssertionError_ValueError_def split: if_splits)

lemma asserted_block_Inr:
  "bind_exc (assert_ok response) f = Inr x \<Longrightarrow> status_code response = 200"
  by (simp add: bind_exc_def assert_ok_def split: if_splits)

lemma table_A:
  assumes "outcome (get_then lib self url
             (\<lambda>response. except_AssertionError (bind_exc (assert_ok response) (f response))))
           = Inr (Some df)"
  shows "\<exists>response. requests_get lib url = Inr response \<and> status_code response = 200 \<and>
           bind_exc (assert_ok response) (f response) = Inr df \<and>
           stdout (get_then lib self url
             (\<lambda>response. except_AssertionError (bind_exc (assert_ok response) (f response)))) = []"
proof -
  from get_then_returned [OF assms] obtain response where
    r: "requests_get lib url = Inr response"
    and s: "snd (except_AssertionError (bind_exc (assert_ok response) (f response))) = Inr (Some df)"
    and o: "stdout (get_then lib self url
             (\<lambda>response. except_AssertionError (bind_exc (assert_ok response) (f response))))
           = fst (except_AssertionError (bind_exc (assert_ok response) (f response)))"
    by blast
  from except_A_Some [OF s] asserted_block_Inr [of response "f response" df] r o
  show ?thesis by auto
qed

lemma table_AV:
  assumes "outcome (get_then lib self url
             (\<lambda>response. except_AssertionError_ValueError
                (bind_exc (assert_ok response) (f response))))
           = Inr (Some df)"
  shows "\<exists>response. requests_get lib url = Inr response \<and> status_code response = 200 \<and>
           bind_exc (assert_ok response) (f response) = Inr df \<and>
           stdout (get_then lib self url
             (\<lambda>response. except_AssertionError_ValueError
                (bind_exc (assert_ok response) (f response)))) = []"
proof -
  from get_then_returned [OF assms] obtain response where
    r: "requests_get lib url = Inr response"
    and s: "snd (except_AssertionError_ValueError (bind_exc (assert_ok response) (f response)))
            = Inr (Some df)"
    and o: "stdout (get_then lib self url
             (\<lambda>response. except_AssertionError_ValueError
                (bind_exc (assert_ok response) (f response))))
           = fst (except_AssertionError_ValueError (bind_exc (assert_ok response) (f response)))"
    by blast
  from except_AV_Some [OF s] asserted_block_Inr [of response "f response" df] r o
  show ?thesis by auto
qed

lemma sibling_table_only_when_ok:
  assumes "op \<noteq> Get_parameter_classes"
    and "outcome (invoke lib self op) = Inr (Some df)"
  shows "\<exists>u response. requested (invoke lib self op) = [u] \<and>
           requests_get lib u = Inr response \<and> status_code response = 200 \<and>
           stdout (invoke lib self op) = []"
proof (cases op)
  case Get_cbsas
  with assms(2) show ?thesis
    by (auto simp add: get_cbsas_def Let_def requested_get_then dest!: table_A)
next
  case Get_state_codes
  with assms(2) show ?thesis
    by (auto simp add: get_state_codes_def Let_def requested_get_then dest!: table_A)
next
  case (Get_counties_by_state x3)
  with assms(2) show ?thesis
    by (auto simp add: get_counties_by_state_def Let_def requested_get_then dest!: table_AV)
next
  case (Get_sites_by_county x41 x42)
  with assms(2) show ?thesis
    by (auto simp add: get_sites_by_county_def Let_def requested_get_then dest!: table_AV)
next
  case Get_parameter_classes
  with assms(1) show ?thesis by simp
next
  case (Get_parameter_list_by_class x6)
  with assms(2) show ?thesis
    by (auto simp add: get_parameter_list_by_class_def Let_def requested_get_then dest!: table_AV)
next
  case (Annual_data_by_cbsa x71 x72 x73 x74)
  with assms(2) show ?thesis
    by (cases "param_fragment x72")
       (auto simp add: annual_data_by_cbsa_def Let_def requested_get_then raised_before_def
          dest!: table_AV)
next
  case (Annual_data_by_site x81 x82 x83 x84 x85 x86)
  with assms(2) show ?thesis
    by (cases "param_fragment x84")
       (auto simp add: annual_data_by_site_def Let_def requested_get_then raised_before_def
          dest!: table_AV)
next
  case (Annual_data_by_county x91 x92 x93 x94 x95)
  with assms(2) show ?thesis
    by (cases "param_fragment x93")
       (auto simp add: annual_data_by_county_def Let_def requested_get_then raised_before_def
          dest!: table_AV)
next
  case (Annual_data_by_state x101 x102 x103 x104)
  with assms(2) show ?thesis
    by (cases "param_fragment x102")
       (auto simp add: annual_data_by_state_def Let_def requested_get_then raised_before_def
          dest!: table_AV)
next
  case (Get_monitors_at_site x111 x112 x113 x114 x115 x116)
  with assms(2) show ?thesis
    by (cases "param_fragment x114")
       (auto simp add: get_monitors_at_site_def Let_def requested_get_then raised_before_def
          dest!: table_AV)
qed

lemma counted_block_Inr:
  assumes "bind_exc (assert_ok response) (\<lambda>_.
            bind_exc (json_loads lib (content response)) (\<lambda>jsn.
            bind_exc (getitem jsn ''Header'') (\<lambda>json_header.
            bind_exc (getitem jsn ''Data'') (\<lambda>json_data.
            bind_exc (getitem0 json_header) (\<lambda>header0.
            bind_exc (getitem header0 ''rows'') (\<lambda>rows.
            bind_exc (if eq_zero rows then Inl ValueError else Inr ()) (\<lambda>_.
            bind_exc (from_records lib json_data) k))))))) = Inr x"
  shows "\<exists>jsn r. json_loads lib (content response) = Inr jsn \<and>
           declared_rows jsn = Inr r \<and> \<not> eq_zero r"
proof -
  from assms obtain jsn where j: "json_loads lib (content response) = Inr jsn"
    by (auto simp add: bind_exc_def split: sum.splits)
  from assms j obtain h where h: "getitem jsn ''Header'' = Inr h"
    by (auto simp add: bind_exc_def split: sum.splits)
  from assms j h obtain h0 where h0: "getitem0 h = Inr h0"
    by (auto simp add: bind_exc_def split: sum.splits)
  from assms j h h0 obtain r where r: "getitem h0 ''rows'' = Inr r"
    by (auto simp add: bind_exc_def split: sum.splits)
  from assms j h h0 r have "\<not> eq_zero r"
    by (auto simp add: bind_exc_def split: sum.splits if_splits)
  moreover have "declared_rows jsn = Inr r"
    by (simp add: declared_rows_def bind_exc_def h h0 r)
  ultimately show ?thesis using j by blast
qed

lemma counted_table_rows_nonzero:
  assumes "row_count_bearing op"
    and "returns_table (invoke lib self op)"
    and "requested (invoke lib self op) = [u]"
    and "requests_get lib u = Inr response"
  shows "\<exists>jsn r. json_loads lib (content response) = Inr jsn \<and>
           declared_rows jsn = Inr r \<and> \<not> eq_zero r"
proof -
  from assms(2) obtain df where df: "outcome (invoke lib self op) = Inr (Some df)"
    by (auto simp add: returns_table_def split: sum.splits option.splits)
  show ?thesis
    using assms(1,3,4) df
    by (cases op)
       (auto simp add: method_defs Let_def requested_get_then raised_before_def
          get_then_answered split: sum.splits
          dest!: except_AV_Some dest: counted_block_Inr)
qed

lemma zero_rows_block:
  assumes "status_code response = 200"
    and "json_loads lib (content response) = Inr jsn"
    and "getitem jsn ''Data'' = Inr d"
    and "declared_rows jsn = Inr r"
    and "eq_zero r"
  shows "bind_exc (assert_ok response) (\<lambda>_.
            bind_exc (json_loads lib (content response)) (\<lambda>jsn.
            bind_exc (getitem jsn ''Header'') (\<lambda>json_header.
            bind_exc (getitem jsn ''Data'') (\<lambda>json_data.
            bind_exc (getitem0 json_header) (\<lambda>header0.
            bind_exc (getitem header0 ''rows'') (\<lambda>rows.
            bind_exc (if eq_zero rows then Inl ValueError else Inr ()) (\<lambda>_.
            bind_exc (from_records lib json_data) k))))))) = Inl ValueError"
  using assms
  by (auto simp add: assert_ok_def bind_exc_def declared_rows_def split: sum.splits)

lemma requested_annual_data_by_cbsa:
  "param_fragment params = Inr f \<Longrightarrow>
   requested (annual_data_by_cbsa lib self cbsa_code params bdate edate) =
     [api_url self @ ''/annualData/byCBSA'' @ stub self @ f @
      ''&bdate='' @ str bdate @ ''&edate='' @ str edate @ ''&cbsa='' @ str cbsa_code]"
  by (simp add: annual_data_by_cbsa_def Let_def requested_get_then)

lemma requested_annual_data_by_site:
  "param_fragment params = Inr f \<Longrightarrow>
   requested (annual_data_by_site lib self state county site params bdate edate) =
     [api_url self @ ''/annualData/bySite'' @ stub self @ f @
      ''&state='' @ str state @ ''&county='' @ str county @
      ''&bdate='' @ str bdate @ ''&edate='' @ str edate @ ''&site='' @ str site]"
  by (simp add: annual_data_by_site_def Let_def requested_get_then)

lemma requested_annual_data_by_county:
  "param_fragment params = Inr f \<Longrightarrow>
   requested (annual_data_by_county lib self state county params bdate edate) =
     [api_url self @ ''/annualData/byCounty'' @ stub self @ f @
      ''&state='' @ str state @ ''&county='' @ str county @
      ''&bdate='' @ str bdate @ ''&edate='' @ str edate]"
  by (simp add: annual_data_by_county_def Let_def requested_get_then)

lemma requested_annual_data_by_state:
  "param_fragment params = Inr f \<Longrightarrow>
   requested (annual_data_by_state lib self state params bdate edate) =
     [api_url self @ ''/annualData/byState'' @ stub self @ f @
      ''&state='' @ str state @ ''&bdate='' @ str bdate @ ''&edate='' @ str edate]"
  by (simp add: annual_data_by_state_def Let_def requested_get_then)

lemma requested_get_monitors_at_site:
  "param_fragment params = Inr f \<Longrightarrow>
   requested (get_monitors_at_site lib self state county site params bdate edate) =
     [api_url self @ ''/monitors/bySite'' @ stub self @ f @
      ''&state='' @ str state @ ''&county='' @ str county @
      ''&bdate='' @ str bdate @ ''&edate='' @ str edate @ ''&site='' @ str site]"
  by (simp add: get_monitors_at_site_def Let_def requested_get_then)

lemmas requested_with_params =
  requested_annual_data_by_cbsa requested_annual_data_by_site requested_annual_data_by_county
  requested_annual_data_by_state requested_get_monitors_at_site

lemma param_fragment_list:
  "ps \<noteq> [] \<Longrightarrow> param_fragment (PList ps) = Inr (''&param='' @ comma_join (map str ps))"
  by (simp add: param_fragment_def bind_exc_def loop_nonempty)

lemma param_fragment_empty: "param_fragment (PList []) = Inr ''&param''"
  by (simp add: param_fragment_def bind_exc_def)

lemma param_fragment_bare_str:
  "s \<noteq> [] \<Longrightarrow>
   param_fragment (PBare (PStr s)) = Inr (''&param='' @ comma_join (map (\<lambda>c. [c]) s))"
  by (simp add: param_fragment_def bind_exc_def loop_nonempty comp_def)

lemmas scenario_defs =
  example_client_def ok_response_def zero_rows_payload_def mock_def init_def

lemma str_int_88101: "str_int 88101 = ''88101''"
  by (simp add: str_int_def str_nat.simps digit_def)

lemma str_int_44201: "str_int 44201 = ''44201''"
  by (simp add: str_int_def str_nat.simps digit_def)

lemmas json_defs = getitem_def getitem0_def eq_zero_def bind_exc_def declared_rows_def

lemmas pandas_defs = pandas_from_records_def frame_of_dicts_def rename_def

lemma bind_exc_InrD: "bind_exc m f = Inr y \<Longrightarrow> \<exists>x. m = Inr x \<and> f x = Inr y"
  by (cases m) (simp_all add: bind_exc_def)

lemma rename_drops:
  assumes "map_of mapper k = Some v" and "k \<notin> snd ` set mapper"
  shows "k \<notin> set (columns (rename mapper df))"
proof
  assume "k \<in> set (columns (rename mapper df))"
  then obtain c where c: "c \<in> set (columns df)"
    and k: "k = (case map_of mapper c of None \<Rightarrow> c | Some c' \<Rightarrow> c')"
    by (auto simp add: rename_def)
  show False
  proof (cases "map_of mapper c")
    case None
    with k assms(1) show False by simp
  next
    case (Some c')
    with k have "map_of mapper c = Some k" by simp
    then have "(c, k) \<in> set mapper" by (rule map_of_SomeD)
    then have "k \<in> snd ` set mapper" by force
    with assms(2) show False by simp
  qed
qed

lemma last_step_renames:
  assumes "bind_exc (from_records lib json_data) (\<lambda>df. Inr (rename mapper df)) = Inr df"
  shows "\<exists>df'. df = rename mapper df'"
  using bind_exc_InrD [OF assms] by auto

lemma uncounted_block_renames:
  assumes "bind_exc (assert_ok response) (\<lambda>_.
            bind_exc (json_loads lib (content response)) (\<lambda>jsn.
            bind_exc (getitem jsn ''Data'') (\<lambda>json_data.
            bind_exc (from_records lib json_data) (\<lambda>df.
            Inr (rename mapper df))))) = Inr df"
  shows "\<exists>df'. df = rename mapper df'"
proof -
  from bind_exc_InrD [OF assms] obtain u where
    1: "bind_exc (json_loads lib (content response)) (\<lambda>jsn.
            bind_exc (getitem jsn ''Data'') (\<lambda>json_data.
            bind_exc (from_records lib json_data) (\<lambda>df.
            Inr (rename mapper df)))) = Inr df" by auto
  from bind_exc_InrD [OF 1] obtain jsn where
    2: "bind_exc (getitem jsn ''Data'') (\<lambda>json_data.
            bind_exc (from_records lib json_data) (\<lambda>df.
            Inr (rename mapper df))) = Inr df" by auto
  from bind_exc_InrD [OF 2] obtain json_data where
    3: "bind_exc (from_records lib json_data) (\<lambda>df. Inr (rename mapper df)) = Inr df" by auto
  from last_step_renames [OF 3] show ?thesis .
qed

lemma counted_block_renames:
  assumes "bind_exc (assert_ok response) (\<lambda>_.
            bind_exc (json_loads lib (content response)) (\<lambda>jsn.
            bind_exc (getitem jsn ''Header'') (\<lambda>json_header.
            bind_exc (getitem jsn ''Data'') (\<lambda>json_data.
            bind_exc (getitem0 json_header) (\<lambda>header0.
            bind_exc (getitem header0 ''rows'') (\<lambda>rows.
            bind_exc (if eq_zero rows then Inl ValueError else Inr ()) (\<lambda>_.
            bind_exc (from_records lib json_data) (\<lambda>df.
            Inr (rename mapper df))))))))) = Inr df"
  shows "\<exists>df'. df = rename mapper df'"
proof -
  from bind_exc_InrD [OF assms] obtain u where
    1: "bind_exc (json_loads lib (content response)) (\<lambda>jsn.
            bind_exc (getitem jsn ''Header'') (\<lambda>json_header.
            bind_exc (getitem jsn ''Data'') (\<lambda>json_data.
            bind_exc (getitem0 json_header) (\<lambda>header0.
            bind_exc (getitem header0 ''rows'') (\<lambda>rows.
            bind_exc (if eq_zero rows then Inl ValueError else Inr ()) (\<lambda>_.
            bind_exc (from_records lib json_data) (\<lambda>df.
            Inr (rename mapper df)))))))) = Inr df" by auto
  from bind_exc_InrD [OF 1] obtain jsn where
    2: "bind_exc (getitem jsn ''Header'') (\<lambda>json_header.
            bind_exc (getitem jsn ''Data'') (\<lambda>json_data.
            bind_exc (getitem0 json_header) (\<lambda>header0.
            bind_exc (getitem header0 ''rows'') (\<lambda>rows.
            bind_exc (if eq_zero rows then Inl ValueError else Inr ()) (\<lambda>_.
            bind_exc (from_records lib json_data) (\<lambda>df.
            Inr (rename mapper df))))))) = Inr df" by auto
  from bind_exc_InrD [OF 2] obtain json_header where
    3: "bind_exc (getitem jsn ''Data'') (\<lambda>json_data.
            bind_exc (getitem0 json_header) (\<lambda>header0.
            bind_exc (getitem header0 ''rows'') (\<lambda>rows.
            bind_exc (if eq_zero rows then Inl ValueError else Inr ()) (\<lambda>_.
            bind_exc (from_records lib json_data) (\<lambda>df.
            Inr (rename mapper df)))))) = Inr df" by auto
  from bind_exc_InrD [OF 3] obtain json_data where
    4: "bind_exc (getitem0 json_header) (\<lambda>header0.
            bind_exc (getitem header0 ''rows'') (\<lambda>rows.
            bind_exc (if eq_zero rows then Inl ValueError else Inr ()) (\<lambda>_.
            bind_exc (from_records lib json_data) (\<lambda>df.
            Inr (rename mapper df))))) = Inr df" by auto
  from bind_exc_InrD [OF 4] obtain header0 where
    5: "bind_exc (getitem header0 ''rows'') (\<lambda>rows.
            bind_exc (if eq_zero rows then Inl ValueError else Inr ()) (\<lambda>_.
            bind_exc (from_records lib json_data) (\<lambda>df.
            Inr (rename mapper df)))) = Inr df" by auto
  from bind_exc_InrD [OF 5] obtain rows where
    6: "bind_exc (if eq_zero rows then Inl ValueError else Inr ()) (\<lambda>_.
            bind_exc (from_records lib json_data) (\<lambda>df.
            Inr (rename mapper df))) = Inr df" by auto
  from bind_exc_InrD [OF 6] obtain u' where
    7: "bind_exc (from_records lib json_data) (\<lambda>df. Inr (rename mapper df)) = Inr df" by auto
  from last_step_renames [OF 7] show ?thesis .
qed

lemma reference_list_table_is_renamed:
  assumes "reference_list op"
    and "outcome (invoke lib self op) = Inr (Some df)"
  shows "\<exists>df' name.
           df = rename (if op = Get_parameter_classes
                        then [(''code'', ''class_name''),
                              (''value_represented'', ''class_description'')]
                        else [(''value_represented'', name)]) df' \<and>
           name \<noteq> ''value_represented''"
proof (cases op)
  case Get_cbsas
  with assms(2) show ?thesis
    by (auto simp add: get_cbsas_def Let_def dest!: table_A uncounted_block_renames)
next
  case Get_state_codes
  with assms(2) show ?thesis
    by (auto simp add: get_state_codes_def Let_def dest!: table_A uncounted_block_renames)
next
  case (Get_counties_by_state x3)
  with assms(2) show ?thesis
    by (auto simp add: get_counties_by_state_def Let_def dest!: table_AV counted_block_renames)
next
  case (Get_sites_by_county x41 x42)
  with assms(2) show ?thesis
    by (auto simp add: get_sites_by_county_def Let_def dest!: table_AV counted_block_renames)
next
  case Get_parameter_classes
  from assms(2) have
    "outcome (get_then lib self (api_url self @ ''/list/classes'' @ stub self)
      (\<lambda>response.
        ((case assert_ok response of Inl e \<Rightarrow> [''Bad URL!''] | Inr _ \<Rightarrow> []),
         map_sum id Some (
              bind_exc (json_loads lib (content response)) (\<lambda>jsn.
              bind_exc (getitem jsn ''Data'') (\<lambda>json_data.
              bind_exc (from_records lib json_data) (\<lambda>df.
              Inr (rename [(''code'', ''class_name''),
                           (''value_represented'', ''class_description'')] df))))))))
     = Inr (Some df)"
    by (simp add: Get_parameter_classes get_parameter_classes_def Let_def)
  from get_then_returned [OF this] have
    "\<exists>response::response. map_sum id Some (
              bind_exc (json_loads lib (content response)) (\<lambda>jsn.
              bind_exc (getitem jsn ''Data'') (\<lambda>json_data.
              bind_exc (from_records lib json_data) (\<lambda>df.
              Inr (rename [(''code'', ''class_name''),
                           (''value_represented'', ''class_description'')] df)))))
     = Inr (Some df)" by auto
  then obtain response :: response where
    "map_sum id Some (
              bind_exc (json_loads lib (content response)) (\<lambda>jsn.
              bind_exc (getitem jsn ''Data'') (\<lambda>json_data.
              bind_exc (from_records lib json_data) (\<lambda>df.
              Inr (rename [(''code'', ''class_name''),
                           (''value_represented'', ''class_description'')] df)))))
     = Inr (Some df)" ..
  then have 1: "bind_exc (json_loads lib (content response)) (\<lambda>jsn.
              bind_exc (getitem jsn ''Data'') (\<lambda>json_data.
              bind_exc (from_records lib json_data) (\<lambda>df.
              Inr (rename [(''code'', ''class_name''),
                           (''value_represented'', ''class_description'')] df))))
     = Inr df"
    by (auto simp add: map_sum_def split: sum.splits)
  from bind_exc_InrD [OF 1] obtain jsn where
    2: "bind_exc (getitem jsn ''Data'') (\<lambda>json_data.
              bind_exc (from_records lib json_data) (\<lambda>df.
              Inr (rename [(''code'', ''class_name''),
                           (''value_represented'', ''class_description'')] df)))
     = Inr df" by auto
  from bind_exc_InrD [OF 2] obtain json_data where
    3: "bind_exc (from_records lib json_data) (\<lambda>df.
              Inr (rename [(''code'', ''class_name''),
                           (''value_represented'', ''class_description'')] df))
     = Inr df" by auto
  from last_step_renames [OF 3] Get_parameter_classes show ?thesis by auto
next
  case (Get_parameter_list_by_class x6)
  with assms(2) show ?thesis
    by (auto simp add: get_parameter_list_by_class_def Let_def
          dest!: table_AV counted_block_renames)
qed (use assms(1) in simp_all)

lemma param_fragment_iterate:
  "iterate params = Inr ps \<Longrightarrow>
   param_fragment params =
     Inr (if ps = [] then ''&param'' else ''&param='' @ comma_join (map str ps))"
  by (simp add: param_fragment_def bind_exc_def loop_nonempty)

lemma NoMatchingData_printed:
  "stdout c = [''No matching data could be found!''] \<Longrightarrow> outcome c = Inr None \<Longrightarrow>
   yields_NoMatchingData c \<and> \<not> returns_table c"
  by (simp add: yields_NoMatchingData_def returns_table_def)

section \<open>The claims\<close>

text \<open>
  Claim C1: for every public operation a table is returned only when the HTTP status was
  OK (and, on the row-count-bearing endpoints, the declared row count is not zero), a
  failure is reported otherwise, and the two never come together. The ten methods that
  keep their whole body inside the \<^verbatim>\<open>try\<close> statement behave so (lemmas
  \<open>sibling_table_only_when_ok\<close>, \<open>counted_table_rows_nonzero\<close> and
  \<open>sibling_bad_status\<close>). \<^verbatim>\<open>get_parameter_classes\<close> does not: on an answer with
  status 404 whose body carries a \<^verbatim>\<open>Data\<close> array it prints \<^verbatim>\<open>Bad URL!\<close> and
  returns the table all the same.
\<close>

theorem get_parameter_classes_table_and_report:
  "stdout (get_parameter_classes (mock not_found_response classes_payload) example_client)
     = [''Bad URL!''] \<and>
   outcome (get_parameter_classes (mock not_found_response classes_payload) example_client)
     = Inr (Some \<lparr>columns = [''class_name'', ''class_description''],
                   records = [[Some (JStr ''AQI''), Some (JStr ''AQI Pollutants'')]]\<rparr>) \<and>
   returns_table (get_parameter_classes (mock not_found_response classes_payload) example_client) \<and>
   \<not> yields_TransportError
       (get_parameter_classes (mock not_found_response classes_payload) example_client)"
  by (simp add: get_parameter_classes_def get_then_def Let_def assert_ok_def
        mock_def not_found_response_def classes_payload_def json_defs pandas_defs
        returns_table_def yields_TransportError_def)

text \<open>
  Claim C2: for every public operation a status other than OK yields a TransportError
  failure and no table. Ten methods do (lemma \<open>sibling_bad_status\<close>);
  \<^verbatim>\<open>get_parameter_classes\<close> prints \<^verbatim>\<open>Bad URL!\<close> and then carries on: whenever
  the body decodes and has a \<^verbatim>\<open>Data\<close> entry that pandas accepts, the renamed table
  is returned although the status was not 200.
\<close>

theorem get_parameter_classes_continues_after_bad_status:
  assumes "requests_get lib (api_url self @ ''/list/classes'' @ stub self) = Inr response"
    and "status_code response \<noteq> 200"
    and "json_loads lib (content response) = Inr jsn"
    and "getitem jsn ''Data'' = Inr json_data"
    and "from_records lib json_data = Inr df"
  shows "stdout (get_parameter_classes lib self) = [''Bad URL!''] \<and>
         outcome (get_parameter_classes lib self) =
           Inr (Some (rename [(''code'', ''class_name''),
                              (''value_represented'', ''class_description'')] df)) \<and>
         \<not> yields_TransportError (get_parameter_classes lib self)"
  using assms
  by (simp add: get_parameter_classes_def get_then_def Let_def assert_ok_def bind_exc_def
        yields_TransportError_def)

text \<open>An instance: status 500 with the payload of an empty result gives the report and
  an empty table.\<close>

theorem get_parameter_classes_continues_witness:
  "status_code \<lparr>status_code = 500, content = ''(body)''\<rparr> \<noteq> 200 \<and>
   stdout (get_parameter_classes
      (mock \<lparr>status_code = 500, content = ''(body)''\<rparr> zero_rows_payload) example_client)
     = [''Bad URL!''] \<and>
   outcome (get_parameter_classes
      (mock \<lparr>status_code = 500, content = ''(body)''\<rparr> zero_rows_payload) example_client)
     = Inr (Some \<lparr>columns = [], records = []\<rparr>)"
proof -
  let ?r = "\<lparr>status_code = 500, content = ''(body)''\<rparr>"
  let ?lib = "mock ?r zero_rows_payload"
  have 1: "requests_get ?lib (api_url example_client @ ''/list/classes'' @ stub example_client)
           = Inr ?r"
    by (simp add: mock_def)
  have 2: "status_code ?r \<noteq> 200" by simp
  have 3: "json_loads ?lib (content ?r) = Inr zero_rows_payload" by (simp add: mock_def)
  have 4: "getitem zero_rows_payload ''Data'' = Inr (JArr [])"
    by (simp add: zero_rows_payload_def getitem_def)
  have 5: "from_records ?lib (JArr []) = Inr \<lparr>columns = [], records = []\<rparr>"
    by (simp add: mock_def pandas_defs)
  from get_parameter_classes_continues_after_bad_status [OF 1 2 3 4 5]
  show ?thesis by (simp add: rename_def)
qed

text \<open>
  Claim C3, as the specification states it: on a row-count-bearing operation, status 200
  and a header whose first element declares \<^verbatim>\<open>rows\<close> equal to 0 yield a
  NoMatchingData failure. The methods read \<^verbatim>\<open>jsn['Data']\<close> (line 100) before they
  look at the row count (line 102), so the payload \<^verbatim>\<open>{"Header": [{"rows": 0}]}\<close>
  sent to \<^verbatim>\<open>get_counties_by_state\<close> ends in a \<^verbatim>\<open>KeyError\<close> that no handler
  catches: nothing is printed and nothing is returned.
\<close>

theorem zero_rows_without_Data_raise_KeyError:
  "status_code ok_response = 200 \<and>
   declared_rows header_only_payload = Inr (JInt 0) \<and> eq_zero (JInt 0) \<and>
   requested (get_counties_by_state (mock ok_response header_only_payload) example_client
      (PStr ''06'')) =
     [''https://aqs.epa.gov/data/api/list/countiesByState?email=user@example.com&key=secret&state=06''] \<and>
   stdout (get_counties_by_state (mock ok_response header_only_payload) example_client
      (PStr ''06'')) = [] \<and>
   outcome (get_counties_by_state (mock ok_response header_only_payload) example_client
      (PStr ''06'')) = Inl KeyError \<and>
   \<not> yields_NoMatchingData
       (get_counties_by_state (mock ok_response header_only_payload) example_client
          (PStr ''06''))"
  by (simp add: get_counties_by_state_def get_then_def Let_def assert_ok_def
        except_AssertionError_ValueError_def yields_NoMatchingData_def
        scenario_defs header_only_payload_def json_defs)

text \<open>
  Claim C3, amended: on each of the eight row-count-bearing operations (counties by state,
  sites by county, parameters by class, the four annual-data operations, monitors), when
  the answer to the request has status 200 and its payload holds a \<^verbatim>\<open>Data\<close> entry
  and a \<^verbatim>\<open>Header\<close> whose first element declares \<^verbatim>\<open>rows\<close> equal to 0, the call
  prints \<^verbatim>\<open>No matching data could be found!\<close>, returns \<^verbatim>\<open>None\<close> and no table.
  The request is the URL each method builds, written out; \<open>ps\<close> are the elements of
  \<^verbatim>\<open>params\<close>.
\<close>

theorem zero_rows_with_Data_yield_NoMatchingData:
  assumes "status_code response = 200"
    and "json_loads lib (content response) = Inr jsn"
    and "getitem jsn ''Data'' = Inr json_data"
    and "declared_rows jsn = Inr rows"
    and "eq_zero rows"
    and "iterate params = Inr ps"
  shows
   "(requests_get lib
       (api_url self @ ''/list/countiesByState'' @ stub self @ ''&state='' @ str state)
       = Inr response \<longrightarrow>
     yields_NoMatchingData (get_counties_by_state lib self state) \<and>
     \<not> returns_table (get_counties_by_state lib self state)) \<and>
    (requests_get lib
       (api_url self @ ''/list/sitesByCounty'' @ stub self @
        ''&state='' @ str state @ ''&county='' @ str county)
       = Inr response \<longrightarrow>
     yields_NoMatchingData (get_sites_by_county lib self state county) \<and>
     \<not> returns_table (get_sites_by_county lib self state county)) \<and>
    (requests_get lib
       (api_url self @ ''/list/parametersByClass'' @ stub self @ ''&pc='' @ str class')
       = Inr response \<longrightarrow>
     yields_NoMatchingData (get_parameter_list_by_class lib self class') \<and>
     \<not> returns_table (get_parameter_list_by_class lib self class')) \<and>
    (requests_get lib
       (api_url self @ ''/annualData/byCBSA'' @ stub self @
        (if ps = [] then ''&param'' else ''&param='' @ comma_join (map str ps)) @
        ''&bdate='' @ str bdate @ ''&edate='' @ str edate @ ''&cbsa='' @ str cbsa_code)
       = Inr response \<longrightarrow>
     yields_NoMatchingData (annual_data_by_cbsa lib self cbsa_code params bdate edate) \<and>
     \<not> returns_table (annual_data_by_cbsa lib self cbsa_code params bdate edate)) \<and>
    (requests_get lib
       (api_url self @ ''/annualData/bySite'' @ stub self @
        (if ps = [] then ''&param'' else ''&param='' @ comma_join (map str ps)) @
        ''&state='' @ str state @ ''&county='' @ str county @
        ''&bdate='' @ str bdate @ ''&edate='' @ str edate @ ''&site='' @ str site)
       = Inr response \<longrightarrow>
     yields_NoMatchingData (annual_data_by_site lib self state county site params bdate edate) \<and>
     \<not> returns_table (annual_data_by_site lib self state county site params bdate edate)) \<and>
    (requests_get lib
       (api_url self @ ''/annualData/byCounty'' @ stub self @
        (if ps = [] then ''&param'' else ''&param='' @ comma_join (map str ps)) @
        ''&state='' @ str state @ ''&county='' @ str county @
        ''&bdate='' @ str bdate @ ''&edate='' @ str edate)
       = Inr response \<longrightarrow>
     yields_NoMatchingData (annual_data_by_county lib self state county params bdate edate) \<and>
     \<not> returns_table (annual_data_by_county lib self state county params bdate edate)) \<and>
    (requests_get lib
       (api_url self @ ''/annualData/byState'' @ stub self @
        (if ps = [] then ''&param'' else ''&param='' @ comma_join (map str ps)) @
        ''&state='' @ str state @ ''&bdate='' @ str bdate @ ''&edate='' @ str edate)
       = Inr response \<longrightarrow>
     yields_NoMatchingData (annual_data_by_state lib self state params bdate edate) \<and>
     \<not> returns_table (annual_data_by_state lib self state params bdate edate)) \<and>
    (requests_get lib
       (api_url self @ ''/monitors/bySite'' @ stub self @
        (if ps = [] then ''&param'' else ''&param='' @ comma_join (map str ps)) @
        ''&state='' @ str state @ ''&county='' @ str county @
        ''&bdate='' @ str bdate @ ''&edate='' @ str edate @ ''&site='' @ str site)
       = Inr response \<longrightarrow>
     yields_NoMatchingData (get_monitors_at_site lib self state county site params bdate edate) \<and>
     \<not> returns_table (get_monitors_at_site lib self state county site params bdate edate))"
proof -
  note blk = zero_rows_block [OF assms(1-5)]
  note frag = param_fragment_iterate [OF assms(6)]
  note ev = Let_def get_then_answered blk except_AssertionError_ValueError_def
  have 1: "requests_get lib
       (api_url self @ ''/list/countiesByState'' @ stub self @ ''&state='' @ str state)
       = Inr response \<Longrightarrow>
     yields_NoMatchingData (get_counties_by_state lib self state) \<and>
     \<not> returns_table (get_counties_by_state lib self state)"
    by (rule NoMatchingData_printed) (simp_all add: get_counties_by_state_def ev)
  have 2: "requests_get lib
       (api_url self @ ''/list/sitesByCounty'' @ stub self @
        ''&state='' @ str state @ ''&county='' @ str county)
       = Inr response \<Longrightarrow>
     yields_NoMatchingData (get_sites_by_county lib self state county) \<and>
     \<not> returns_table (get_sites_by_county lib self state county)"
    by (rule NoMatchingData_printed) (simp_all add: get_sites_by_county_def ev)
  have 3: "requests_get lib
       (api_url self @ ''/list/parametersByClass'' @ stub self @ ''&pc='' @ str class')
       = Inr response \<Longrightarrow>
     yields_NoMatchingData (get_parameter_list_by_class lib self class') \<and>
     \<not> returns_table (get_parameter_list_by_class lib self class')"
    by (rule NoMatchingData_printed) (simp_all add: get_parameter_list_by_class_def ev)
  have 4: "requests_get lib
       (api_url self @ ''/annualData/byCBSA'' @ stub self @
        (if ps = [] then ''&param'' else ''&param='' @ comma_join (map str ps)) @
        ''&bdate='' @ str bdate @ ''&edate='' @ str edate @ ''&cbsa='' @ str cbsa_code)
       = Inr response \<Longrightarrow>
     yields_NoMatchingData (annual_data_by_cbsa lib self cbsa_code params bdate edate) \<and>
     \<not> returns_table (annual_data_by_cbsa lib self cbsa_code params bdate edate)"
    by (rule NoMatchingData_printed) (simp_all add: annual_data_by_cbsa_def frag ev)
  have 5: "requests_get lib
       (api_url self @ ''/annualData/bySite'' @ stub self @
        (if ps = [] then ''&param'' else ''&param='' @ comma_join (map str ps)) @
        ''&state='' @ str state @ ''&county='' @ str county @
        ''&bdate='' @ str bdate @ ''&edate='' @ str edate @ ''&site='' @ str site)
       = Inr response \<Longrightarrow>
     yields_NoMatchingData (annual_data_by_site lib self state county site params bdate edate) \<and>
     \<not> returns_table (annual_data_by_site lib self state county site params bdate edate)"
    by (rule NoMatchingData_printed) (simp_all add: annual_data_by_site_def frag ev)
  have 6: "requests_get lib
       (api_url self @ ''/annualData/byCounty'' @ stub self @
        (if ps = [] then ''&param'' else ''&param='' @ comma_join (map str ps)) @
        ''&state='' @ str state @ ''&county='' @ str county @
        ''&bdate='' @ str bdate @ ''&edate='' @ str edate)
       = Inr response \<Longrightarrow>
     yields_NoMatchingData (annual_data_by_county lib self state county params bdate edate) \<and>
     \<not> returns_table (annual_data_by_county lib self state county params bdate edate)"
    by (rule NoMatchingData_printed) (simp_all add: annual_data_by_county_def frag ev)
  have 7: "requests_get lib
       (api_url self @ ''/annualData/byState'' @ stub self @
        (if ps = [] then ''&param'' else ''&param='' @ comma_join (map str ps)) @
        ''&state='' @ str state @ ''&bdate='' @ str bdate @ ''&edate='' @ str edate)
       = Inr response \<Longrightarrow>
     yields_NoMatchingData (annual_data_by_state lib self state params bdate edate) \<and>
     \<not> returns_table (annual_data_by_state lib self state params bdate edate)"
    by (rule NoMatchingData_printed) (simp_all add: annual_data_by_state_def frag ev)
  have 8: "requests_get lib
       (api_url self @ ''/monitors/bySite'' @ stub self @
        (if ps = [] then ''&param'' else ''&param='' @ comma_join (map str ps)) @
        ''&state='' @ str state @ ''&county='' @ str county @
        ''&bdate='' @ str bdate @ ''&edate='' @ str edate @ ''&site='' @ str site)
       = Inr response \<Longrightarrow>
     yields_NoMatchingData (get_monitors_at_site lib self state county site params bdate edate) \<and>
     \<not> returns_table (get_monitors_at_site lib self state county site params bdate edate)"
    by (rule NoMatchingData_printed) (simp_all add: get_monitors_at_site_def frag ev)
  from 1 2 3 4 5 6 7 8 show ?thesis by blast
qed

text \<open>All eight operations against \<^verbatim>\<open>{"Header": [{"rows": 0}], "Data": []}\<close>.\<close>

theorem zero_rows_with_Data_witness:
  "status_code ok_response = 200 \<and>
   getitem zero_rows_payload ''Data'' = Inr (JArr []) \<and>
   declared_rows zero_rows_payload = Inr (JInt 0) \<and> eq_zero (JInt 0) \<and>
   iterate (PList [PInt 88101]) = Inr [PInt 88101] \<and>
   yields_NoMatchingData
     (get_counties_by_state (mock ok_response zero_rows_payload) example_client (PStr ''06'')) \<and>
   yields_NoMatchingData
     (get_sites_by_county (mock ok_response zero_rows_payload) example_client
        (PStr ''06'') (PStr ''037'')) \<and>
   yields_NoMatchingData
     (get_parameter_list_by_class (mock ok_response zero_rows_payload) example_client
        (PStr ''CRITERIA'')) \<and>
   yields_NoMatchingData
     (annual_data_by_cbsa (mock ok_response zero_rows_payload) example_client
        (PStr ''16980'') (PList [PInt 88101]) (PStr ''20200101'') (PStr ''20201231'')) \<and>
   yields_NoMatchingData
     (annual_data_by_site (mock ok_response zero_rows_payload) example_client
        (PStr ''06'') (PStr ''037'') (PStr ''0002'') (PList [PInt 88101])
        (PStr ''20200101'') (PStr ''20201231'')) \<and>
   yields_NoMatchingData
     (annual_data_by_county (mock ok_response zero_rows_payload) example_client
        (PStr ''06'') (PStr ''037'') (PList [PInt 88101])
        (PStr ''20200101'') (PStr ''20201231'')) \<and>
   yields_NoMatchingData
     (annual_data_by_state (mock ok_response zero_rows_payload) example_client
        (PStr ''06'') (PList [PInt 88101]) (PStr ''20200101'') (PStr ''20201231'')) \<and>
   yields_NoMatchingData
     (get_monitors_at_site (mock ok_response zero_rows_payload) example_client
        (PStr ''06'') (PStr ''037'') (PStr ''0002'') (PList [PInt 88101])
        (PStr ''20200101'') (PStr ''20201231''))"
proof -
  let ?lib = "mock ok_response zero_rows_payload"
  have 1: "status_code ok_response = 200" by (simp add: ok_response_def)
  have 2: "json_loads ?lib (content ok_response) = Inr zero_rows_payload"
    by (simp add: mock_def)
  have 3: "getitem zero_rows_payload ''Data'' = Inr (JArr [])"
    by (simp add: zero_rows_payload_def getitem_def)
  have 4: "declared_rows zero_rows_payload = Inr (JInt 0)"
    by (simp add: zero_rows_payload_def declared_rows_def getitem_def getitem0_def bind_exc_def)
  have 5: "eq_zero (JInt 0)" by (simp add: eq_zero_def)
  have 6: "iterate (PList [PInt 88101]) = Inr [PInt 88101]" by simp
  have 7: "\<And>u. requests_get ?lib u = Inr ok_response" by (simp add: mock_def)
  from zero_rows_with_Data_yield_NoMatchingData [OF 1 2 3 4 5 6, where self = example_client
      and state = "PStr ''06''" and county = "PStr ''037''" and site = "PStr ''0002''"
      and class' = "PStr ''CRITERIA''" and cbsa_code = "PStr ''16980''"
      and bdate = "PStr ''20200101''" and edate = "PStr ''20201231''"]
    1 3 4 5 7
  show ?thesis by simp
qed

text \<open>
  Claim C4: \<^verbatim>\<open>get_cbsas\<close> and \<^verbatim>\<open>get_state_codes\<close> check the status and nothing
  else. With status 200 each returns the table built from the payload's \<^verbatim>\<open>Data\<close>
  entry, whatever the payload's \<^verbatim>\<open>Header\<close> says and also when the array is empty;
  neither of them ever yields a NoMatchingData failure.
\<close>

theorem status_is_the_only_check:
  assumes "status_code response = 200"
    and "json_loads lib (content response) = Inr jsn"
    and "getitem jsn ''Data'' = Inr json_data"
    and "from_records lib json_data = Inr df"
  shows "(requests_get lib (api_url self @ ''/list/cbsas'' @ stub self) = Inr response \<longrightarrow>
            stdout (get_cbsas lib self) = [] \<and>
            outcome (get_cbsas lib self) =
              Inr (Some (rename [(''value_represented'', ''cbsa_name'')] df))) \<and>
         (requests_get lib (api_url self @ ''/list/states'' @ stub self) = Inr response \<longrightarrow>
            stdout (get_state_codes lib self) = [] \<and>
            outcome (get_state_codes lib self) =
              Inr (Some (rename [(''value_represented'', ''state_name'')] df))) \<and>
         \<not> yields_NoMatchingData (get_cbsas lib self) \<and>
         \<not> yields_NoMatchingData (get_state_codes lib self)"
proof -
  have a: "\<And>b. fst (except_AssertionError b) \<noteq> [''No matching data could be found!'']"
    by (simp add: except_AssertionError_def split: sum.splits)
  have "\<not> yields_NoMatchingData (get_cbsas lib self)"
    using a by (simp add: yields_NoMatchingData_def get_cbsas_def get_then_def Let_def
                  split: sum.splits)
  moreover have "\<not> yields_NoMatchingData (get_state_codes lib self)"
    using a by (simp add: yields_NoMatchingData_def get_state_codes_def get_then_def Let_def
                  split: sum.splits)
  ultimately show ?thesis
    using assms
    by (simp add: get_cbsas_def get_state_codes_def get_then_def Let_def assert_ok_def
          bind_exc_def except_AssertionError_def)
qed

text \<open>An instance: the payload declares zero rows and its \<^verbatim>\<open>Data\<close> array is empty;
  both methods return the empty table and print nothing.\<close>

theorem status_is_the_only_check_witness:
  "status_code ok_response = 200 \<and>
   declared_rows zero_rows_payload = Inr (JInt 0) \<and>
   getitem zero_rows_payload ''Data'' = Inr (JArr []) \<and>
   outcome (get_cbsas (mock ok_response zero_rows_payload) example_client) =
     Inr (Some \<lparr>columns = [], records = []\<rparr>) \<and>
   stdout (get_cbsas (mock ok_response zero_rows_payload) example_client) = [] \<and>
   outcome (get_state_codes (mock ok_response zero_rows_payload) example_client) =
     Inr (Some \<lparr>columns = [], records = []\<rparr>) \<and>
   stdout (get_state_codes (mock ok_response zero_rows_payload) example_client) = []"
proof -
  let ?lib = "mock ok_response zero_rows_payload"
  have 1: "status_code ok_response = 200" by (simp add: ok_response_def)
  have 2: "json_loads ?lib (content ok_response) = Inr zero_rows_payload" by (simp add: mock_def)
  have 3: "getitem zero_rows_payload ''Data'' = Inr (JArr [])"
    by (simp add: zero_rows_payload_def getitem_def)
  have 4: "from_records ?lib (JArr []) = Inr \<lparr>columns = [], records = []\<rparr>"
    by (simp add: mock_def pandas_defs)
  have 5: "declared_rows zero_rows_payload = Inr (JInt 0)"
    by (simp add: zero_rows_payload_def json_defs)
  have 6: "\<And>u. requests_get ?lib u = Inr ok_response" by (simp add: mock_def)
  from status_is_the_only_check [OF 1 2 3 4, of example_client] 1 3 5 6
  show ?thesis by (simp add: rename_def)
qed

text \<open>
  Claim C5: for a non-empty list of parameter codes the loop builds
  \<^verbatim>\<open>&param=\<close> followed by the string forms of the codes, joined with commas in the
  order of the list, nothing reordered and nothing removed; each of the five operations
  that take such a list puts this fragment in its URL right after the authentication
  stub. For \<^verbatim>\<open>[88101, 44201]\<close> the fragment is \<^verbatim>\<open>param=88101,44201\<close>.
\<close>

theorem codes_joined_in_order:
  assumes "ps \<noteq> []"
  shows "param_fragment (PList ps) = Inr (''&'' @ ''param='' @ comma_join (map str ps)) \<and>
   requested (annual_data_by_cbsa lib self cbsa_code (PList ps) bdate edate) =
     [api_url self @ ''/annualData/byCBSA'' @ stub self @
      ''&'' @ ''param='' @ comma_join (map str ps) @
      ''&bdate='' @ str bdate @ ''&edate='' @ str edate @ ''&cbsa='' @ str cbsa_code] \<and>
   requested (annual_data_by_site lib self state county site (PList ps) bdate edate) =
     [api_url self @ ''/annualData/bySite'' @ stub self @
      ''&'' @ ''param='' @ comma_join (map str ps) @
      ''&state='' @ str state @ ''&county='' @ str county @
      ''&bdate='' @ str bdate @ ''&edate='' @ str edate @ ''&site='' @ str site] \<and>
   requested (annual_data_by_county lib self state county (PList ps) bdate edate) =
     [api_url self @ ''/annualData/byCounty'' @ stub self @
      ''&'' @ ''param='' @ comma_join (map str ps) @
      ''&state='' @ str state @ ''&county='' @ str county @
      ''&bdate='' @ str bdate @ ''&edate='' @ str edate] \<and>
   requested (annual_data_by_state lib self state (PList ps) bdate edate) =
     [api_url self @ ''/annualData/byState'' @ stub self @
      ''&'' @ ''param='' @ comma_join (map str ps) @
      ''&state='' @ str state @ ''&bdate='' @ str bdate @ ''&edate='' @ str edate] \<and>
   requested (get_monitors_at_site lib self state county site (PList ps) bdate edate) =
     [api_url self @ ''/monitors/bySite'' @ stub self @
      ''&'' @ ''param='' @ comma_join (map str ps) @
      ''&state='' @ str state @ ''&county='' @ str county @
      ''&bdate='' @ str bdate @ ''&edate='' @ str edate @ ''&site='' @ str site]"
  using param_fragment_list [OF assms] by (simp add: requested_with_params)

text \<open>The list \<^verbatim>\<open>[88101, 44201]\<close>, and the URL of the annual data by state for it.\<close>

theorem codes_joined_witness:
  "[PInt 88101, PInt 44201] \<noteq> [] \<and>
   param_fragment (PList [PInt 88101, PInt 44201]) = Inr ''&param=88101,44201'' \<and>
   requested (annual_data_by_state (mock ok_response zero_rows_payload) example_client
      (PStr ''06'') (PList [PInt 88101, PInt 44201]) (PStr ''20200101'') (PStr ''20201231'')) =
     [''https://aqs.epa.gov/data/api/annualData/byState?email=user@example.com&key=secret&param=88101,44201&state=06&bdate=20200101&edate=20201231'']"
  using codes_joined_in_order [where ps = "[PInt 88101, PInt 44201]"
      and lib = "mock ok_response zero_rows_payload" and self = example_client
      and state = "PStr ''06''" and bdate = "PStr ''20200101''" and edate = "PStr ''20201231''"]
  by (simp add: str_int_88101 str_int_44201 scenario_defs)

text \<open>
  Claim C6, as the specification states it: with an empty list of codes the query string
  has a dangling separator. It has none. The slice \<^verbatim>\<open>search_params[:-1]\<close> finds no
  trailing comma to drop and removes the \<^verbatim>\<open>=\<close> of \<^verbatim>\<open>&param=\<close> instead, so the
  URL of the annual data by state for state 06 in 2020 reads
  \<^verbatim>\<open>...&key=secret&param&state=06&bdate=20200101&edate=20201231\<close>: every separator in
  it is followed by a name or a value.
\<close>

theorem empty_list_no_dangling_separator:
  "requested (annual_data_by_state (mock ok_response zero_rows_payload) example_client
      (PStr ''06'') (PList []) (PStr ''20200101'') (PStr ''20201231'')) =
     [''https://aqs.epa.gov/data/api/annualData/byState?email=user@example.com&key=secret&param&state=06&bdate=20200101&edate=20201231''] \<and>
   \<not> dangling_separator
     ''https://aqs.epa.gov/data/api/annualData/byState?email=user@example.com&key=secret&param&state=06&bdate=20200101&edate=20201231''"
  using param_fragment_empty
  by (simp add: requested_with_params scenario_defs separator_def)

text \<open>
  Claim C6, amended: for every operation taking a list of parameter codes, the empty list
  yields the malformed fragment \<^verbatim>\<open>&param\<close>, the bare name with neither \<^verbatim>\<open>=\<close> nor
  a value, directly followed by the next query parameter.
\<close>

theorem empty_list_drops_equals_sign:
  "param_fragment (PList []) = Inr ''&param'' \<and>
   requested (annual_data_by_cbsa lib self cbsa_code (PList []) bdate edate) =
     [api_url self @ ''/annualData/byCBSA'' @ stub self @ ''&param'' @
      ''&bdate='' @ str bdate @ ''&edate='' @ str edate @ ''&cbsa='' @ str cbsa_code] \<and>
   requested (annual_data_by_site lib self state county site (PList []) bdate edate) =
     [api_url self @ ''/annualData/bySite'' @ stub self @ ''&param'' @
      ''&state='' @ str state @ ''&county='' @ str county @
      ''&bdate='' @ str bdate @ ''&edate='' @ str edate @ ''&site='' @ str site] \<and>
   requested (annual_data_by_county lib self state county (PList []) bdate edate) =
     [api_url self @ ''/annualData/byCounty'' @ stub self @ ''&param'' @
      ''&state='' @ str state @ ''&county='' @ str county @
      ''&bdate='' @ str bdate @ ''&edate='' @ str edate] \<and>
   requested (annual_data_by_state lib self state (PList []) bdate edate) =
     [api_url self @ ''/annualData/byState'' @ stub self @ ''&param'' @
      ''&state='' @ str state @ ''&bdate='' @ str bdate @ ''&edate='' @ str edate] \<and>
   requested (get_monitors_at_site lib self state county site (PList []) bdate edate) =
     [api_url self @ ''/monitors/bySite'' @ stub self @ ''&param'' @
      ''&state='' @ str state @ ''&county='' @ str county @
      ''&bdate='' @ str bdate @ ''&edate='' @ str edate @ ''&site='' @ str site]"
  using param_fragment_empty by (simp add: requested_with_params)

text \<open>
  Claim C7, as the specification states it: the URL of the scenario, and NoMatchingData
  for a payload whose header declares zero rows. The URL is as claimed; the outcome is
  not for every such payload: on \<^verbatim>\<open>{"Header": [{"rows": 0}]}\<close> line 339 raises
  \<^verbatim>\<open>KeyError\<close> for the missing \<^verbatim>\<open>Data\<close> entry before line 341 reads the row
  count, and the call prints nothing.
\<close>

theorem annual_data_by_state_without_Data_raises_KeyError:
  "status_code ok_response = 200 \<and>
   declared_rows header_only_payload = Inr (JInt 0) \<and> eq_zero (JInt 0) \<and>
   requested (annual_data_by_state (mock ok_response header_only_payload) example_client
      (PStr ''06'') (PList [PInt 88101]) (PStr ''20200101'') (PStr ''20201231'')) =
     [''https://aqs.epa.gov/data/api/annualData/byState?email=user@example.com&key=secret&param=88101&state=06&bdate=20200101&edate=20201231''] \<and>
   stdout (annual_data_by_state (mock ok_response header_only_payload) example_client
      (PStr ''06'') (PList [PInt 88101]) (PStr ''20200101'') (PStr ''20201231'')) = [] \<and>
   outcome (annual_data_by_state (mock ok_response header_only_payload) example_client
      (PStr ''06'') (PList [PInt 88101]) (PStr ''20200101'') (PStr ''20201231'')) = Inl KeyError \<and>
   \<not> yields_NoMatchingData
       (annual_data_by_state (mock ok_response header_only_payload) example_client
          (PStr ''06'') (PList [PInt 88101]) (PStr ''20200101'') (PStr ''20201231''))"
proof -
  have f: "param_fragment (PList [PInt 88101]) = Inr ''&param=88101''"
    using param_fragment_list [of "[PInt 88101]"] by (simp add: str_int_88101)
  show ?thesis
    by (simp add: annual_data_by_state_def f get_then_def Let_def assert_ok_def
          except_AssertionError_ValueError_def yields_NoMatchingData_def
          scenario_defs header_only_payload_def json_defs)
qed

text \<open>
  Claim C7, amended: \<^verbatim>\<open>annual_data_by_state\<close> for state \<^verbatim>\<open>"06"\<close>, codes
  \<^verbatim>\<open>[88101]\<close> and the dates 20200101 and 20201231 requests the base URL, followed by
  the endpoint path \<^verbatim>\<open>/annualData/byState\<close>, the authentication fragment and the query
  \<^verbatim>\<open>&param=88101&state=06&bdate=20200101&edate=20201231\<close>, in this order; and when the
  answer to that request has status 200 and a payload that holds a \<^verbatim>\<open>Data\<close> entry
  and whose header declares zero rows, the call yields NoMatchingData.
\<close>

theorem annual_data_by_state_scenario:
  "requested (annual_data_by_state lib (init e k base)
      (PStr ''06'') (PList [PInt 88101]) (PStr ''20200101'') (PStr ''20201231'')) =
     [api_url (init e k base) @ ''/annualData/byState'' @ (''?email='' @ e @ ''&key='' @ k) @
      ''&param=88101&state=06&bdate=20200101&edate=20201231''] \<and>
   (requests_get lib
      (api_url (init e k base) @ ''/annualData/byState'' @ (''?email='' @ e @ ''&key='' @ k) @
       ''&param=88101&state=06&bdate=20200101&edate=20201231'') = Inr response \<and>
    status_code response = 200 \<and>
    json_loads lib (content response) = Inr jsn \<and>
    getitem jsn ''Data'' = Inr json_data \<and>
    declared_rows jsn = Inr rows \<and> eq_zero rows \<longrightarrow>
    yields_NoMatchingData (annual_data_by_state lib (init e k base)
      (PStr ''06'') (PList [PInt 88101]) (PStr ''20200101'') (PStr ''20201231'')))"
proof (intro conjI impI)
  have f: "param_fragment (PList [PInt 88101]) = Inr ''&param=88101''"
    using param_fragment_list [of "[PInt 88101]"] by (simp add: str_int_88101)
  show "requested (annual_data_by_state lib (init e k base)
      (PStr ''06'') (PList [PInt 88101]) (PStr ''20200101'') (PStr ''20201231'')) =
     [api_url (init e k base) @ ''/annualData/byState'' @ (''?email='' @ e @ ''&key='' @ k) @
      ''&param=88101&state=06&bdate=20200101&edate=20201231'']"
    by (simp add: requested_annual_data_by_state [OF f] init_def)
  assume a: "requests_get lib
      (api_url (init e k base) @ ''/annualData/byState'' @ (''?email='' @ e @ ''&key='' @ k) @
       ''&param=88101&state=06&bdate=20200101&edate=20201231'') = Inr response \<and>
    status_code response = 200 \<and>
    json_loads lib (content response) = Inr jsn \<and>
    getitem jsn ''Data'' = Inr json_data \<and>
    declared_rows jsn = Inr rows \<and> eq_zero rows"
  then have blk: "\<And>k. bind_exc (assert_ok response) (\<lambda>_.
            bind_exc (json_loads lib (content response)) (\<lambda>jsn.
            bind_exc (getitem jsn ''Header'') (\<lambda>json_header.
            bind_exc (getitem jsn ''Data'') (\<lambda>json_data.
            bind_exc (getitem0 json_header) (\<lambda>header0.
            bind_exc (getitem header0 ''rows'') (\<lambda>rows.
            bind_exc (if eq_zero rows then Inl ValueError else Inr ()) (\<lambda>_.
            bind_exc (from_records lib json_data) k))))))) = Inl ValueError"
    by (intro zero_rows_block [of response lib jsn json_data rows]) simp_all
  from a have g: "requests_get lib
      (api_url (init e k base) @ ''/annualData/byState'' @ stub (init e k base) @
       ''&param=88101'' @ ''&state='' @ str (PStr ''06'') @ ''&bdate='' @ str (PStr ''20200101'') @
       ''&edate='' @ str (PStr ''20201231'')) = Inr response"
    by (simp add: init_def)
  show "yields_NoMatchingData (annual_data_by_state lib (init e k base)
      (PStr ''06'') (PList [PInt 88101]) (PStr ''20200101'') (PStr ''20201231''))"
    unfolding annual_data_by_state_def yields_NoMatchingData_def
    using g by (simp add: f Let_def get_then_answered blk except_AssertionError_ValueError_def)
qed

text \<open>The scenario against the default base URL and the payload
  \<^verbatim>\<open>{"Header": [{"rows": 0}], "Data": []}\<close>.\<close>

theorem annual_data_by_state_scenario_witness:
  "status_code ok_response = 200 \<and>
   declared_rows zero_rows_payload = Inr (JInt 0) \<and> eq_zero (JInt 0) \<and>
   requested (annual_data_by_state (mock ok_response zero_rows_payload) example_client
      (PStr ''06'') (PList [PInt 88101]) (PStr ''20200101'') (PStr ''20201231'')) =
     [''https://aqs.epa.gov/data/api/annualData/byState?email=user@example.com&key=secret&param=88101&state=06&bdate=20200101&edate=20201231''] \<and>
   yields_NoMatchingData (annual_data_by_state (mock ok_response zero_rows_payload) example_client
      (PStr ''06'') (PList [PInt 88101]) (PStr ''20200101'') (PStr ''20201231''))"
proof -
  have 1: "status_code ok_response = 200" by (simp add: ok_response_def)
  have 2: "declared_rows zero_rows_payload = Inr (JInt 0)"
    by (simp add: zero_rows_payload_def json_defs)
  have 3: "eq_zero (JInt 0)" by (simp add: eq_zero_def)
  have 4: "getitem zero_rows_payload ''Data'' = Inr (JArr [])"
    by (simp add: zero_rows_payload_def getitem_def)
  have 5: "\<And>u. requests_get (mock ok_response zero_rows_payload) u = Inr ok_response"
    by (simp add: mock_def)
  have 6: "\<And>b. json_loads (mock ok_response zero_rows_payload) b = Inr zero_rows_payload"
    by (simp add: mock_def)
  from annual_data_by_state_scenario [of "mock ok_response zero_rows_payload"
      "''user@example.com''" "''secret''" None ok_response zero_rows_payload "JArr []" "JInt 0"]
    1 2 3 4 5 6
  show ?thesis by (simp add: example_client_def init_def)
qed

text \<open>
  Claim C8: the rename of the reference-list operations is total. Whenever one of the six
  returns a table, no column of it is labelled \<^verbatim>\<open>value_represented\<close>, and no column
  of the table of \<^verbatim>\<open>get_parameter_classes\<close> is labelled \<^verbatim>\<open>code\<close>. On the
  payload \<^verbatim>\<open>{"Data": [{"code": "01", "value_represented": "Alabama"}]}\<close> the method
  \<^verbatim>\<open>get_state_codes\<close> returns one row with the columns \<^verbatim>\<open>code\<close> and
  \<^verbatim>\<open>state_name\<close> and the values 01 and Alabama.
\<close>

theorem rename_is_total:
  "(reference_list op \<and> outcome (invoke lib self op) = Inr (Some df) \<longrightarrow>
      ''value_represented'' \<notin> set (columns df) \<and>
      (op = Get_parameter_classes \<longrightarrow> ''code'' \<notin> set (columns df))) \<and>
   outcome (get_state_codes (mock ok_response states_payload) self) =
     Inr (Some \<lparr>columns = [''code'', ''state_name''],
                 records = [[Some (JStr ''01''), Some (JStr ''Alabama'')]]\<rparr>)"
proof (intro conjI impI)
  assume a: "reference_list op \<and> outcome (invoke lib self op) = Inr (Some df)"
  then obtain df' name where
    df: "df = rename (if op = Get_parameter_classes
                        then [(''code'', ''class_name''),
                              (''value_represented'', ''class_description'')]
                        else [(''value_represented'', name)]) df'"
    and name: "name \<noteq> ''value_represented''"
    using reference_list_table_is_renamed [of op lib self df] by blast
  show "''value_represented'' \<notin> set (columns df)"
  proof (cases "op = Get_parameter_classes")
    case True
    with df show ?thesis by (simp add: rename_drops)
  next
    case False
    with df name show ?thesis by (simp add: rename_drops)
  qed
  assume "op = Get_parameter_classes"
  with df show "''code'' \<notin> set (columns df)" by (simp add: rename_drops)
next
  show "outcome (get_state_codes (mock ok_response states_payload) self) =
     Inr (Some \<lparr>columns = [''code'', ''state_name''],
                 records = [[Some (JStr ''01''), Some (JStr ''Alabama'')]]\<rparr>)"
    by (simp add: get_state_codes_def get_then_def Let_def assert_ok_def
          except_AssertionError_def mock_def ok_response_def states_payload_def
          json_defs pandas_defs)
qed

text \<open>An instance: the parameter classes against
  \<^verbatim>\<open>{"Data": [{"code": "AQI", "value_represented": "AQI Pollutants"}]}\<close>.\<close>

theorem rename_is_total_witness:
  "reference_list Get_parameter_classes \<and>
   outcome (invoke (mock ok_response classes_payload) example_client Get_parameter_classes) =
     Inr (Some \<lparr>columns = [''class_name'', ''class_description''],
                 records = [[Some (JStr ''AQI''), Some (JStr ''AQI Pollutants'')]]\<rparr>) \<and>
   ''value_represented'' \<notin> set [''class_name'', ''class_description''] \<and>
   ''code'' \<notin> set [''class_name'', ''class_description'']"
proof -
  have o: "outcome (invoke (mock ok_response classes_payload) example_client Get_parameter_classes) =
     Inr (Some \<lparr>columns = [''class_name'', ''class_description''],
                 records = [[Some (JStr ''AQI''), Some (JStr ''AQI Pollutants'')]]\<rparr>)"
    by (simp add: get_parameter_classes_def get_then_def Let_def assert_ok_def
          mock_def ok_response_def classes_payload_def json_defs pandas_defs)
  from rename_is_total [of Get_parameter_classes "mock ok_response classes_payload" example_client
      "\<lparr>columns = [''class_name'', ''class_description''],
        records = [[Some (JStr ''AQI''), Some (JStr ''AQI Pollutants'')]]\<rparr>"] o
  show ?thesis by simp
qed

text \<open>
  Claim C9: no public operation changes the client. After every call, whatever its
  outcome, the object is the one the call started with (its \<^verbatim>\<open>email\<close>, \<^verbatim>\<open>key\<close>,
  \<^verbatim>\<open>api_url\<close> and \<^verbatim>\<open>stub\<close>); and every URL requested through a client built by
  the constructor starts with the base URL, the endpoint path and the fragment
  \<^verbatim>\<open>email=<email>&key=<key>\<close> after a question mark.
\<close>

theorem identity_unchanged:
  "self_after (invoke lib self op) = self \<and>
   (\<forall>url \<in> set (requested (invoke lib (init e k base) op)).
      prefix (api_url (init e k base) @ endpoint_path op @ ''?'' @ ''email='' @ e @ ''&key='' @ k)
        url)"
proof
  show "self_after (invoke lib self op) = self" by (rule self_after_invoke)
  show "\<forall>url \<in> set (requested (invoke lib (init e k base) op)).
      prefix (api_url (init e k base) @ endpoint_path op @ ''?'' @ ''email='' @ e @ ''&key='' @ k)
        url"
    by (cases op)
       (simp_all add: method_defs Let_def requested_get_then raised_before_def init_def
          split: sum.splits)
qed

text \<open>An instance: the sites of a county, answered with status 404.\<close>

theorem identity_unchanged_witness:
  "self_after (invoke (mock not_found_response zero_rows_payload) example_client
      (Get_sites_by_county (PStr ''06'') (PStr ''037''))) = example_client \<and>
   requested (invoke (mock not_found_response zero_rows_payload) example_client
      (Get_sites_by_county (PStr ''06'') (PStr ''037''))) =
     [''https://aqs.epa.gov/data/api/list/sitesByCounty?email=user@example.com&key=secret&state=06&county=037''] \<and>
   prefix ''https://aqs.epa.gov/data/api/list/sitesByCounty?email=user@example.com&key=secret''
     ''https://aqs.epa.gov/data/api/list/sitesByCounty?email=user@example.com&key=secret&state=06&county=037''"
proof -
  have r: "requested (invoke (mock not_found_response zero_rows_payload) example_client
      (Get_sites_by_county (PStr ''06'') (PStr ''037''))) =
     [''https://aqs.epa.gov/data/api/list/sitesByCounty?email=user@example.com&key=secret&state=06&county=037'']"
    by (simp add: get_sites_by_county_def Let_def requested_get_then example_client_def init_def)
  from identity_unchanged [of "mock not_found_response zero_rows_payload" example_client
      "Get_sites_by_county (PStr ''06'') (PStr ''037'')" "''user@example.com''" "''secret''" None]
    r
  show ?thesis by (simp add: example_client_def init_def)
qed

text \<open>
  Claim C10: the loop iterates whatever \<^verbatim>\<open>params\<close> is and applies \<^verbatim>\<open>str\<close> to each
  element, so a bare non-empty string in place of a list is split into its characters,
  joined with commas, in all five operations that take the argument. For
  \<^verbatim>\<open>"88101"\<close> the fragment is \<^verbatim>\<open>param=8,8,1,0,1\<close>.
\<close>

theorem bare_string_split_into_characters:
  assumes "s \<noteq> []"
  shows "param_fragment (PBare (PStr s)) = Inr (''&param='' @ comma_join (map (\<lambda>c. [c]) s)) \<and>
   requested (annual_data_by_cbsa lib self cbsa_code (PBare (PStr s)) bdate edate) =
     [api_url self @ ''/annualData/byCBSA'' @ stub self @
      ''&param='' @ comma_join (map (\<lambda>c. [c]) s) @
      ''&bdate='' @ str bdate @ ''&edate='' @ str edate @ ''&cbsa='' @ str cbsa_code] \<and>
   requested (annual_data_by_site lib self state county site (PBare (PStr s)) bdate edate) =
     [api_url self @ ''/annualData/bySite'' @ stub self @
      ''&param='' @ comma_join (map (\<lambda>c. [c]) s) @
      ''&state='' @ str state @ ''&county='' @ str county @
      ''&bdate='' @ str bdate @ ''&edate='' @ str edate @ ''&site='' @ str site] \<and>
   requested (annual_data_by_county lib self state county (PBare (PStr s)) bdate edate) =
     [api_url self @ ''/annualData/byCounty'' @ stub self @
      ''&param='' @ comma_join (map (\<lambda>c. [c]) s) @
      ''&state='' @ str state @ ''&county='' @ str county @
      ''&bdate='' @ str bdate @ ''&edate='' @ str edate] \<and>
   requested (annual_data_by_state lib self state (PBare (PStr s)) bdate edate) =
     [api_url self @ ''/annualData/byState'' @ stub self @
      ''&param='' @ comma_join (map (\<lambda>c. [c]) s) @
      ''&state='' @ str state @ ''&bdate='' @ str bdate @ ''&edate='' @ str edate] \<and>
   requested (get_monitors_at_site lib self state county site (PBare (PStr s)) bdate edate) =
     [api_url self @ ''/monitors/bySite'' @ stub self @
      ''&param='' @ comma_join (map (\<lambda>c. [c]) s) @
      ''&state='' @ str state @ ''&county='' @ str county @
      ''&bdate='' @ str bdate @ ''&edate='' @ str edate @ ''&site='' @ str site]"
  using param_fragment_bare_str [OF assms] by (simp add: requested_with_params)

text \<open>The string \<^verbatim>\<open>"88101"\<close>, and the URL of the annual data by CBSA for it.\<close>

theorem bare_string_witness:
  "''88101'' \<noteq> [] \<and>
   param_fragment (PBare (PStr ''88101'')) = Inr ''&param=8,8,1,0,1'' \<and>
   requested (annual_data_by_cbsa (mock ok_response zero_rows_payload) example_client
      (PStr ''16980'') (PBare (PStr ''88101'')) (PStr ''20200101'') (PStr ''20201231'')) =
     [''https://aqs.epa.gov/data/api/annualData/byCBSA?email=user@example.com&key=secret&param=8,8,1,0,1&bdate=20200101&edate=20201231&cbsa=16980'']"
  using bare_string_split_into_characters [of "''88101''" "mock ok_response zero_rows_payload"
      example_client "PStr ''16980''" "PStr ''20200101''" "PStr ''20201231''"]
  by (simp add: scenario_defs)

end
